theory Spec2Isabelle
  imports Main
begin

section \<open>JavaScript values seen by the request handlers\<close>

text \<open>
  The handlers of \<^verbatim>\<open>src/controllers/user.controller.js\<close> read path parameters, query
  parameters and JSON body fields. A field that is missing reads as \<^verbatim>\<open>undefined\<close>.
  Numbers are the integral ones (the only numbers the handlers build themselves are the
  defaults \<^verbatim>\<open>1\<close> and \<^verbatim>\<open>20\<close>); \<open>JNaN\<close> is the number \<^verbatim>\<open>NaN\<close>.
\<close>

datatype jsval =
    JUndefined
  | JNull
  | JBool bool
  | JNum int
  | JNaN
  | JStr string
  | JArr "jsval list"
  | JObj "(string \<times> jsval) list"

text \<open>\<^verbatim>\<open>!v\<close> is true exactly for the falsy values.\<close>

fun truthy :: "jsval \<Rightarrow> bool" where
  "truthy JUndefined = False"
| "truthy JNull = False"
| "truthy (JBool b) = b"
| "truthy (JNum n) = (n \<noteq> 0)"
| "truthy JNaN = False"
| "truthy (JStr s) = (s \<noteq> [])"
| "truthy (JArr xs) = True"
| "truthy (JObj kvs) = True"

text \<open>Reading a property of a parsed object: an absent key gives \<^verbatim>\<open>undefined\<close>.\<close>

definition get_prop :: "(string \<rightharpoonup> jsval) \<Rightarrow> string \<Rightarrow> jsval" where
  "get_prop obj k = (case obj k of None \<Rightarrow> JUndefined | Some v \<Rightarrow> v)"

text \<open>A destructuring default \<^verbatim>\<open>{ k = d }\<close> applies when the property is \<^verbatim>\<open>undefined\<close>.\<close>

definition prop_default :: "(string \<rightharpoonup> jsval) \<Rightarrow> string \<Rightarrow> jsval \<Rightarrow> jsval" where
  "prop_default obj k d = (if get_prop obj k = JUndefined then d else get_prop obj k)"

subsection \<open>ToString and parseInt\<close>

fun nat_digits :: "nat \<Rightarrow> string" where
  "nat_digits n =
     (if n < 10 then [''0123456789'' ! n]
      else nat_digits (n div 10) @ [''0123456789'' ! (n mod 10)])"

declare nat_digits.simps [simp del]

definition int_digits :: "int \<Rightarrow> string" where
  "int_digits i = (if i < 0 then CHR ''-'' # nat_digits (nat (- i)) else nat_digits (nat i))"

fun join_comma :: "string list \<Rightarrow> string" where
  "join_comma [] = []"
| "join_comma [s] = s"
| "join_comma (s # t # ss) = s @ CHR '','' # join_comma (t # ss)"

text \<open>
  \<^verbatim>\<open>String(v)\<close>: an integer prints as its decimal digits (JavaScript switches to
  exponent notation from \<open>10^21\<close> on), an array joins its elements with commas
  (\<^verbatim>\<open>null\<close> and \<^verbatim>\<open>undefined\<close> elements as the empty string), a plain object
  is \<^verbatim>\<open>[object Object]\<close>.
\<close>

fun ToString :: "jsval \<Rightarrow> string" where
  "ToString JUndefined = ''undefined''"
| "ToString JNull = ''null''"
| "ToString (JBool b) = (if b then ''true'' else ''false'')"
| "ToString (JNum n) = int_digits n"
| "ToString JNaN = ''NaN''"
| "ToString (JStr s) = s"
| "ToString (JArr xs) =
     join_comma (map (\<lambda>x. if x = JUndefined \<or> x = JNull then [] else ToString x) xs)"
| "ToString (JObj kvs) = ''[object Object]''"

definition is_js_whitespace :: "char \<Rightarrow> bool" where
  "is_js_whitespace c \<longleftrightarrow>
     c \<in> set [CHR 0x09, CHR 0x0A, CHR 0x0B, CHR 0x0C, CHR 0x0D, CHR '' '', CHR 0xA0]"

definition digit_of :: "nat \<Rightarrow> char \<Rightarrow> nat option" where
  "digit_of radix c =
     (case map_of
        [(CHR ''0'', 0), (CHR ''1'', 1), (CHR ''2'', 2), (CHR ''3'', 3), (CHR ''4'', 4),
         (CHR ''5'', 5), (CHR ''6'', 6), (CHR ''7'', 7), (CHR ''8'', 8), (CHR ''9'', 9),
         (CHR ''a'', 10), (CHR ''b'', 11), (CHR ''c'', 12), (CHR ''d'', 13),
         (CHR ''e'', 14), (CHR ''f'', 15),
         (CHR ''A'', 10), (CHR ''B'', 11), (CHR ''C'', 12), (CHR ''D'', 13),
         (CHR ''E'', 14), (CHR ''F'', 15)] c of
        None \<Rightarrow> None
      | Some d \<Rightarrow> if d < radix then Some d else None)"

fun radix_digits :: "nat \<Rightarrow> string \<Rightarrow> nat list" where
  "radix_digits radix [] = []"
| "radix_digits radix (c # cs) =
     (case digit_of radix c of None \<Rightarrow> [] | Some d \<Rightarrow> d # radix_digits radix cs)"

text \<open>
  \<^verbatim>\<open>parseInt(v)\<close> with no radix: the argument is converted to a string, leading white
  space and a sign are stripped, a \<^verbatim>\<open>0x\<close> prefix selects base 16, and the longest
  prefix of digits is read; no digit gives \<^verbatim>\<open>NaN\<close>. The model keeps the exact
  integer (JavaScript rounds integers beyond \<open>2^53\<close> to the nearest double).
\<close>

definition parseInt :: "jsval \<Rightarrow> jsval" where
  "parseInt v =
     (let s1 = dropWhile is_js_whitespace (ToString v);
          sgn = (if take 1 s1 = ''-'' then - 1 else (1::int));
          s2 = (if take 1 s1 = ''-'' \<or> take 1 s1 = ''+'' then drop 1 s1 else s1);
          hex = (take 2 s2 = ''0x'' \<or> take 2 s2 = ''0X'');
          radix = (if hex then 16 else 10);
          s3 = (if hex then drop 2 s2 else s2);
          ds = radix_digits radix s3
      in if ds = [] then JNaN
         else JNum (sgn * int (foldl (\<lambda>a d. a * radix + d) 0 ds)))"

lemma parseInt_examples:
  "parseInt (JNum 1) = JNum 1"
  "parseInt (JNum 20) = JNum 20"
  "parseInt (JStr ''1'') = JNum 1"
  "parseInt (JStr ''20'') = JNum 20"
  "parseInt (JStr '' -42px'') = JNum (- 42)"
  "parseInt (JStr ''0x1F'') = JNum 31"
  "parseInt (JStr '''') = JNaN"
  "parseInt (JStr ''abc'') = JNaN"
  "parseInt (JArr [JStr ''7'', JStr ''8'']) = JNum 7"
  by code_simp+


section \<open>The relational schema\<close>

text \<open>
  The tables of the schema file (\<^verbatim>\<open>src/unnamed/part_000\<close>), one record per table with the
  columns in declaration order. A column without \<^verbatim>\<open>NOT NULL\<close> is an option
  (\<open>None\<close> is SQL \<^verbatim>\<open>NULL\<close>); a UUID is its text; a timestamp is a point of an
  abstract clock; the JSONB column is its text. The fields carry a table prefix because
  several tables share column names. The tables \<^verbatim>\<open>app_settings\<close>, \<^verbatim>\<open>sms_logs\<close> and
  \<^verbatim>\<open>admins\<close> take part in no foreign key and no handler touches them; they are left out
  of the state.
\<close>

type_synonym uuid = string
type_synonym timestamp = nat

record users_row =
  u_id :: uuid
  u_phone_number :: string
  u_name :: "string option"
  u_email :: "string option"
  u_photo :: "string option"
  u_status :: "string option"
  u_verified :: "bool option"
  u_disabled :: "bool option"
  u_role :: "string option"
  u_created_at :: "timestamp option"
  u_updated_at :: "timestamp option"

record otps_row =
  o_id :: uuid
  o_user_id :: "uuid option"
  o_phone_number :: string
  o_otp_code :: string
  o_expires_at :: timestamp
  o_created_at :: "timestamp option"

record sessions_row =
  s_id :: uuid
  s_user_id :: uuid
  s_token :: string
  s_expires_at :: timestamp
  s_created_at :: "timestamp option"

record groups_row =
  g_id :: uuid
  g_name :: string
  g_created_by :: uuid
  g_photo :: "string option"
  g_only_admins_can_post :: "bool option"
  g_disabled :: "bool option"
  g_created_at :: "timestamp option"
  g_updated_at :: "timestamp option"

record group_members_row =
  gm_id :: uuid
  gm_group_id :: uuid
  gm_user_id :: uuid
  gm_is_admin :: "bool option"
  gm_added_by :: "uuid option"
  gm_joined_at :: "timestamp option"

record messages_row =
  m_id :: uuid
  m_from_id :: uuid
  m_to_id :: "uuid option"
  m_group_id :: "uuid option"
  m_content :: "string option"
  m_metadata :: "string option"
  m_type :: int
  m_created_at :: "timestamp option"

record user_messages_row =
  um_id :: uuid
  um_user_id :: uuid
  um_message_id :: uuid
  um_is_read :: "bool option"
  um_created_at :: "timestamp option"

record blocked_users_row =
  b_id :: uuid
  b_blocker_id :: uuid
  b_blocked_id :: uuid
  b_created_at :: "timestamp option"

record notification_tokens_row =
  nt_id :: uuid
  nt_user_id :: uuid
  nt_token :: string
  nt_device_id :: "string option"
  nt_created_at :: "timestamp option"

record reported_users_row =
  ru_id :: uuid
  ru_reporter_id :: uuid
  ru_reported_id :: uuid
  ru_reason :: "string option"
  ru_created_at :: "timestamp option"

record reported_groups_row =
  rg_id :: uuid
  rg_reporter_id :: uuid
  rg_group_id :: uuid
  rg_reason :: "string option"
  rg_created_at :: "timestamp option"

text \<open>The stored state: every table is the list of its rows, oldest first.\<close>

record db =
  users :: "users_row list"
  otps :: "otps_row list"
  sessions :: "sessions_row list"
  groups :: "groups_row list"
  group_members :: "group_members_row list"
  messages :: "messages_row list"
  user_messages :: "user_messages_row list"
  blocked_users :: "blocked_users_row list"
  notification_tokens :: "notification_tokens_row list"
  reported_users :: "reported_users_row list"
  reported_groups :: "reported_groups_row list"

definition empty_db :: db where
  "empty_db = \<lparr>users = [], otps = [], sessions = [], groups = [], group_members = [],
     messages = [], user_messages = [], blocked_users = [], notification_tokens = [],
     reported_users = [], reported_groups = []\<rparr>"

text \<open>The column names of every table, as the \<^verbatim>\<open>CREATE TABLE\<close> statements declare them.\<close>

definition table_columns :: "string \<Rightarrow> string list option" where
  "table_columns = map_of
     [(''users'', [''id'', ''phone_number'', ''name'', ''email'', ''photo'', ''status'',
         ''verified'', ''disabled'', ''role'', ''created_at'', ''updated_at'']),
      (''otps'', [''id'', ''user_id'', ''phone_number'', ''otp_code'', ''expires_at'',
         ''created_at'']),
      (''sessions'', [''id'', ''user_id'', ''token'', ''expires_at'', ''created_at'']),
      (''groups'', [''id'', ''name'', ''created_by'', ''photo'', ''only_admins_can_post'',
         ''disabled'', ''created_at'', ''updated_at'']),
      (''group_members'', [''id'', ''group_id'', ''user_id'', ''is_admin'', ''added_by'',
         ''joined_at'']),
      (''messages'', [''id'', ''from_id'', ''to_id'', ''group_id'', ''content'', ''metadata'',
         ''type'', ''created_at'']),
      (''user_messages'', [''id'', ''user_id'', ''message_id'', ''is_read'', ''created_at'']),
      (''blocked_users'', [''id'', ''blocker_id'', ''blocked_id'', ''created_at'']),
      (''notification_tokens'', [''id'', ''user_id'', ''token'', ''device_id'', ''created_at'']),
      (''reported_users'', [''id'', ''reporter_id'', ''reported_id'', ''reason'',
         ''created_at'']),
      (''reported_groups'', [''id'', ''reporter_id'', ''group_id'', ''reason'', ''created_at'']),
      (''app_settings'', [''id'', ''allow_creating_broadcast'', ''allow_creating_groups'',
         ''allow_creating_status'', ''allow_calls'', ''allow_send_attachment'',
         ''allow_user_signup'', ''maintenance_mode'', ''otp_expiry_minutes'', ''updated_at'']),
      (''sms_logs'', [''id'', ''phone_number'', ''message'', ''request_id'', ''status'',
         ''created_at'']),
      (''admins'', [''id'', ''username'', ''email'', ''password_hash'', ''created_at'',
         ''updated_at''])]"

text \<open>What the database answers when it refuses a statement.\<close>

datatype db_error =
    CheckViolation
  | UniqueViolation
  | ForeignKeyViolation
  | NotNullViolation
  | InvalidTextRepresentation
  | UndefinedTable string
  | UndefinedColumn string
  | FeatureNotSupported

definition user_ids :: "db \<Rightarrow> uuid set" where
  "user_ids d = set (map u_id (users d))"

definition group_ids :: "db \<Rightarrow> uuid set" where
  "group_ids d = set (map g_id (groups d))"

definition message_ids :: "db \<Rightarrow> uuid set" where
  "message_ids d = set (map m_id (messages d))"

subsection \<open>Inserting into messages and user\_messages\<close>

text \<open>
  The check constraint of \<^verbatim>\<open>messages\<close> (line 95):
  \<^verbatim>\<open>CHECK ((to_id IS NULL AND group_id IS NOT NULL) OR (to_id IS NOT NULL AND group_id IS NULL))\<close>.
\<close>

definition messages_check :: "messages_row \<Rightarrow> bool" where
  "messages_check r \<longleftrightarrow>
     (m_to_id r = None \<and> m_group_id r \<noteq> None) \<or> (m_to_id r \<noteq> None \<and> m_group_id r = None)"

text \<open>A nullable foreign key is checked only when it is set.\<close>

definition fk_ok :: "uuid option \<Rightarrow> uuid set \<Rightarrow> bool" where
  "fk_ok ref keys = (case ref of None \<Rightarrow> True | Some k \<Rightarrow> k \<in> keys)"

text \<open>
  \<^verbatim>\<open>INSERT INTO messages\<close> of a row with its defaults filled in: the check constraint, then
  the primary key, then the three foreign keys (lines 84, 92--95). A refused row leaves the
  table as it was.
\<close>

definition insert_message :: "messages_row \<Rightarrow> db \<Rightarrow> db_error + db" where
  "insert_message r d =
     (if \<not> messages_check r then Inl CheckViolation
      else if m_id r \<in> message_ids d then Inl UniqueViolation
      else if m_from_id r \<notin> user_ids d \<or> \<not> fk_ok (m_to_id r) (user_ids d)
                \<or> \<not> fk_ok (m_group_id r) (group_ids d)
        then Inl ForeignKeyViolation
      else Inr (d\<lparr>messages := messages d @ [r]\<rparr>))"

text \<open>
  \<^verbatim>\<open>INSERT INTO user_messages\<close>: the primary key and \<^verbatim>\<open>UNIQUE (user_id, message_id)\<close>
  (lines 106, 113), then the two foreign keys (lines 111, 112).
\<close>

definition insert_user_message :: "user_messages_row \<Rightarrow> db \<Rightarrow> db_error + db" where
  "insert_user_message r d =
     (if um_id r \<in> set (map um_id (user_messages d))
         \<or> (um_user_id r, um_message_id r)
              \<in> set (map (\<lambda>x. (um_user_id x, um_message_id x)) (user_messages d))
        then Inl UniqueViolation
      else if um_user_id r \<notin> user_ids d \<or> um_message_id r \<notin> message_ids d
        then Inl ForeignKeyViolation
      else Inr (d\<lparr>user_messages := user_messages d @ [r]\<rparr>))"

subsection \<open>Deleting with the schema's referential actions\<close>

text \<open>
  Deleting rows of \<^verbatim>\<open>messages\<close> removes the \<^verbatim>\<open>user_messages\<close> rows that reference
  them (line 112, \<^verbatim>\<open>ON DELETE CASCADE\<close>).
\<close>

definition delete_messages_where :: "(messages_row \<Rightarrow> bool) \<Rightarrow> db \<Rightarrow> db" where
  "delete_messages_where P d =
     (let gone = map m_id (filter P (messages d))
      in d\<lparr>messages := filter (\<lambda>r. \<not> P r) (messages d),
            user_messages := filter (\<lambda>r. um_message_id r \<notin> set gone) (user_messages d)\<rparr>)"

text \<open>
  Deleting rows of \<^verbatim>\<open>groups\<close> removes their memberships (line 72), their messages
  (line 94, with the messages' own cascade) and the reports against them (line 168).
\<close>

definition delete_groups_where :: "(groups_row \<Rightarrow> bool) \<Rightarrow> db \<Rightarrow> db" where
  "delete_groups_where P d =
     (let gone = map g_id (filter P (groups d))
      in delete_messages_where (\<lambda>r. \<not> fk_ok (m_group_id r) (- set gone))
           (d\<lparr>groups := filter (\<lambda>r. \<not> P r) (groups d),
              group_members := filter (\<lambda>r. gm_group_id r \<notin> set gone) (group_members d),
              reported_groups := filter (\<lambda>r. rg_group_id r \<notin> set gone) (reported_groups d)\<rparr>))"

text \<open>
  Deleting rows of \<^verbatim>\<open>users\<close>: every foreign key to \<^verbatim>\<open>users(id)\<close> is
  \<^verbatim>\<open>ON DELETE CASCADE\<close> (lines 32, 45, 61, 73, 92, 93, 111, 126, 127, 142, 156, 157, 167)
  except \<^verbatim>\<open>group_members.added_by\<close>, which is \<^verbatim>\<open>ON DELETE SET NULL\<close> (line 74).
  Groups the deleted users created go with their own cascade, and so do the messages the
  deleted users sent or received.
\<close>

definition delete_users_where :: "(users_row \<Rightarrow> bool) \<Rightarrow> db \<Rightarrow> db" where
  "delete_users_where P d =
     (let gone = map u_id (filter P (users d))
      in delete_messages_where
           (\<lambda>r. m_from_id r \<in> set gone \<or> \<not> fk_ok (m_to_id r) (- set gone))
           (delete_groups_where (\<lambda>r. g_created_by r \<in> set gone)
              (d\<lparr>users := filter (\<lambda>r. \<not> P r) (users d),
                 otps := filter (\<lambda>r. fk_ok (o_user_id r) (- set gone)) (otps d),
                 sessions := filter (\<lambda>r. s_user_id r \<notin> set gone) (sessions d),
                 group_members :=
                   map (\<lambda>r. if fk_ok (gm_added_by r) (- set gone) then r
                             else r\<lparr>gm_added_by := None\<rparr>)
                     (filter (\<lambda>r. gm_user_id r \<notin> set gone) (group_members d)),
                 user_messages := filter (\<lambda>r. um_user_id r \<notin> set gone) (user_messages d),
                 blocked_users :=
                   filter (\<lambda>r. b_blocker_id r \<notin> set gone \<and> b_blocked_id r \<notin> set gone)
                     (blocked_users d),
                 notification_tokens :=
                   filter (\<lambda>r. nt_user_id r \<notin> set gone) (notification_tokens d),
                 reported_users :=
                   filter (\<lambda>r. ru_reporter_id r \<notin> set gone \<and> ru_reported_id r \<notin> set gone)
                     (reported_users d),
                 reported_groups :=
                   filter (\<lambda>r. rg_reporter_id r \<notin> set gone) (reported_groups d)\<rparr>)))"

text \<open>\<^verbatim>\<open>DELETE FROM users WHERE id = $1\<close>.\<close>

definition delete_user :: "uuid \<Rightarrow> db \<Rightarrow> db" where
  "delete_user u d = delete_users_where (\<lambda>r. u_id r = u) d"


section \<open>Errors, requests and responses\<close>

text \<open>The error kinds of the specification (section 7).\<close>

datatype error_kind =
    InvalidArgument
  | Unauthorized
  | Forbidden
  | NotFound
  | Conflict
  | Timeout
  | StorageFailure

text \<open>
  What a handler can pass to \<^verbatim>\<open>next(error)\<close>: an \<^verbatim>\<open>ApiError(status, message)\<close> it throws
  itself, the \<^verbatim>\<open>ReferenceError\<close> of a free identifier that is not bound, a statement the
  database refused, or a typed error of a domain service.
\<close>

datatype js_error =
    ApiError nat string
  | ReferenceError string
  | DatabaseError db_error
  | ServiceError error_kind

text \<open>
  Modelled from the spec: the centralized translator (\<^verbatim>\<open>middleware/errorHandler\<close>, not
  among the sources), as far as section 7 fixes it: status 400 is InvalidArgument, 401
  Unauthorized, 403 Forbidden, 404 NotFound, 409 Conflict, 504 Timeout, 500
  StorageFailure; any database error is a storage failure (section 4.2). The spec names
  no kind for an unbound identifier.
\<close>

definition error_kind_of :: "js_error \<Rightarrow> error_kind option" where
  "error_kind_of e =
     (case e of
        ApiError st msg \<Rightarrow>
          map_of [(400, InvalidArgument), (401, Unauthorized), (403, Forbidden),
                  (404, NotFound), (409, Conflict), (504, Timeout), (500, StorageFailure)] st
      | ReferenceError x \<Rightarrow> None
      | DatabaseError x \<Rightarrow> Some StorageFailure
      | ServiceError k \<Rightarrow> Some k)"

text \<open>
  The parts of the Express request the handlers read: \<^verbatim>\<open>req.params.id\<close>,
  \<^verbatim>\<open>req.query\<close>, \<^verbatim>\<open>req.body\<close> and \<^verbatim>\<open>req.user.id\<close>.
\<close>

record request =
  req_params_id :: string
  req_query :: "string \<rightharpoonup> jsval"
  req_body :: "string \<rightharpoonup> jsval"
  req_user_id :: uuid

record listing =
  items :: "users_row list"
  totalCount :: nat

text \<open>
  What a response carries under \<^verbatim>\<open>data\<close>: the listing, or \<^verbatim>\<open>{ user: ... }\<close> with
  whatever the awaited service call returned (\<open>'u\<close>).
\<close>

datatype 'u resp_data = DataListing listing | DataUser 'u

text \<open>The JSON envelope \<^verbatim>\<open>{error, message, data}\<close>; \<open>None\<close> when \<^verbatim>\<open>data\<close> is not sent.\<close>

record 'u envelope =
  env_error :: bool
  env_message :: string
  env_data :: "'u resp_data option"

text \<open>
  A handler ends with \<^verbatim>\<open>res.status(n).json(envelope)\<close> or, from its \<^verbatim>\<open>catch\<close>, with
  \<^verbatim>\<open>next(error)\<close>.
\<close>

datatype 'u outcome = Respond nat "'u envelope" | Next js_error

text \<open>An awaited call: the value or the error thrown, and the state it leaves.\<close>

type_synonym 'a awaited = "(js_error + 'a) \<times> db"

section \<open>The statements the controller issues\<close>

text \<open>
  \<^verbatim>\<open>query(text, params)\<close> with the statement's shape made explicit:
  \<open>InsertInto table columns params on_conflict_do_nothing\<close> and
  \<open>DeleteFrom table conditions\<close>, where each condition is \<^verbatim>\<open>column = $n\<close> and the
  conditions are joined by \<^verbatim>\<open>AND\<close>.
\<close>

datatype sql =
    InsertInto string "string list" "jsval list" bool
  | DeleteFrom string "(string \<times> jsval) list"

record query_result =
  rowCount :: nat

type_synonym query_fn = "sql \<Rightarrow> db \<Rightarrow> query_result awaited"

text \<open>
  The controller module binds \<^verbatim>\<open>userService\<close>, \<^verbatim>\<open>ApiError\<close> and \<^verbatim>\<open>logger\<close>
  (lines 1--3) and declares the class \<^verbatim>\<open>UserController\<close>; the identifier \<^verbatim>\<open>query\<close> that
  \<^verbatim>\<open>reportUser\<close>, \<^verbatim>\<open>blockUser\<close>, \<^verbatim>\<open>unblockUser\<close> and \<^verbatim>\<open>getBlockedUsers\<close>
  call is neither imported nor declared in it. The handlers below take what \<^verbatim>\<open>query\<close>
  resolves to as their first argument: \<open>None\<close> when it is unbound, as in the module as
  written.
\<close>

definition controller_query :: "query_fn option" where
  "controller_query = None"

subsection \<open>A query helper over the schema\<close>

text \<open>How a parameter is read for a UUID column and for a text column.\<close>

definition uuid_param :: "jsval \<Rightarrow> db_error + uuid option" where
  "uuid_param v =
     (case v of
        JNull \<Rightarrow> Inr None
      | JUndefined \<Rightarrow> Inr None
      | JStr s \<Rightarrow> Inr (Some s)
      | _ \<Rightarrow> Inl InvalidTextRepresentation)"

definition text_param :: "jsval \<Rightarrow> string option" where
  "text_param v = (if v = JNull \<or> v = JUndefined then None else Some (ToString v))"

text \<open>The value bound to a column by an insert; a column that is not listed is \<^verbatim>\<open>NULL\<close>.\<close>

definition bound :: "(string \<times> jsval) list \<Rightarrow> string \<Rightarrow> jsval" where
  "bound binds c = (case map_of binds c of None \<Rightarrow> JNull | Some v \<Rightarrow> v)"

text \<open>
  \<^verbatim>\<open>INSERT INTO reported_users\<close> (lines 150--158): both user columns are
  \<^verbatim>\<open>NOT NULL\<close> and reference \<^verbatim>\<open>users(id)\<close>; the table has no uniqueness
  constraint besides its primary key.
\<close>

definition insert_reported_user ::
    "uuid \<Rightarrow> timestamp \<Rightarrow> (string \<times> jsval) list \<Rightarrow> db \<Rightarrow> db_error + db" where
  "insert_reported_user new_id now binds d =
     (case (uuid_param (bound binds ''reporter_id''), uuid_param (bound binds ''reported_id'')) of
        (Inl e, _) \<Rightarrow> Inl e
      | (_, Inl e) \<Rightarrow> Inl e
      | (Inr (Some reporter), Inr (Some reported)) \<Rightarrow>
          if new_id \<in> set (map ru_id (reported_users d)) then Inl UniqueViolation
          else if reporter \<notin> user_ids d \<or> reported \<notin> user_ids d then Inl ForeignKeyViolation
          else Inr (d\<lparr>reported_users := reported_users d @
                    [\<lparr>ru_id = new_id, ru_reporter_id = reporter, ru_reported_id = reported,
                      ru_reason = text_param (bound binds ''reason''),
                      ru_created_at = Some now\<rparr>]\<rparr>)
      | _ \<Rightarrow> Inl NotNullViolation)"

text \<open>
  \<^verbatim>\<open>INSERT INTO blocked_users\<close> (lines 121--129): both columns are \<^verbatim>\<open>NOT NULL\<close>
  and reference \<^verbatim>\<open>users(id)\<close>, and \<^verbatim>\<open>UNIQUE (blocker_id, blocked_id)\<close>.
\<close>

definition insert_blocked_user ::
    "uuid \<Rightarrow> timestamp \<Rightarrow> (string \<times> jsval) list \<Rightarrow> db \<Rightarrow> db_error + db" where
  "insert_blocked_user new_id now binds d =
     (case (uuid_param (bound binds ''blocker_id''), uuid_param (bound binds ''blocked_id'')) of
        (Inl e, _) \<Rightarrow> Inl e
      | (_, Inl e) \<Rightarrow> Inl e
      | (Inr (Some blocker), Inr (Some blocked)) \<Rightarrow>
          if new_id \<in> set (map b_id (blocked_users d))
             \<or> (blocker, blocked)
                  \<in> set (map (\<lambda>r. (b_blocker_id r, b_blocked_id r)) (blocked_users d))
            then Inl UniqueViolation
          else if blocker \<notin> user_ids d \<or> blocked \<notin> user_ids d then Inl ForeignKeyViolation
          else Inr (d\<lparr>blocked_users := blocked_users d @
                    [\<lparr>b_id = new_id, b_blocker_id = blocker, b_blocked_id = blocked,
                      b_created_at = Some now\<rparr>]\<rparr>)
      | _ \<Rightarrow> Inl NotNullViolation)"

text \<open>
  A condition \<^verbatim>\<open>column = $n\<close> on a row of \<^verbatim>\<open>blocked_users\<close>; a \<^verbatim>\<open>NULL\<close>
  parameter matches no row.
\<close>

definition blocked_cond :: "blocked_users_row \<Rightarrow> string \<times> jsval \<Rightarrow> bool" where
  "blocked_cond r cv =
     (let col = (if fst cv = ''id'' then b_id r
                 else if fst cv = ''blocker_id'' then b_blocker_id r
                 else b_blocked_id r)
      in uuid_param (snd cv) = Inr (Some col))"

text \<open>
  Modelled from the spec: the \<^verbatim>\<open>query\<close> helper (\<^verbatim>\<open>config/database\<close> is not among the
  sources): section 4.2, one parameterized statement executed against the schema, any
  refusal surfacing as a database error. The statement is analysed first: a table or a
  column the schema does not declare is refused before any row is touched. A new row
  takes \<open>new_id\<close> for \<^verbatim>\<open>uuid_generate_v4()\<close> and \<open>now\<close> for
  \<^verbatim>\<open>CURRENT_TIMESTAMP\<close>. The helper covers the statement forms the controller issues:
  inserts into \<^verbatim>\<open>reported_users\<close> and \<^verbatim>\<open>blocked_users\<close> that leave the defaulted
  columns out, and deletes from \<^verbatim>\<open>blocked_users\<close> by its UUID columns.
\<close>

definition pg_query :: "uuid \<Rightarrow> timestamp \<Rightarrow> query_fn" where
  "pg_query new_id now stmt d =
     (case stmt of
        InsertInto t cols params on_conflict_do_nothing \<Rightarrow>
          (case table_columns t of
             None \<Rightarrow> (Inl (DatabaseError (UndefinedTable t)), d)
           | Some declared \<Rightarrow>
               (case filter (\<lambda>c. c \<notin> set declared) cols of
                  c # _ \<Rightarrow> (Inl (DatabaseError (UndefinedColumn c)), d)
                | [] \<Rightarrow>
                    if ''id'' \<in> set cols \<or> ''created_at'' \<in> set cols
                       \<or> (t \<noteq> ''reported_users'' \<and> t \<noteq> ''blocked_users'')
                      then (Inl (DatabaseError FeatureNotSupported), d)
                    else
                      (case (if t = ''reported_users''
                             then insert_reported_user new_id now (zip cols params) d
                             else insert_blocked_user new_id now (zip cols params) d) of
                         Inr d' \<Rightarrow> (Inr \<lparr>rowCount = 1\<rparr>, d')
                       | Inl e \<Rightarrow>
                           if e = UniqueViolation \<and> on_conflict_do_nothing
                           then (Inr \<lparr>rowCount = 0\<rparr>, d)
                           else (Inl (DatabaseError e), d))))
      | DeleteFrom t conds \<Rightarrow>
          (case table_columns t of
             None \<Rightarrow> (Inl (DatabaseError (UndefinedTable t)), d)
           | Some declared \<Rightarrow>
               (case filter (\<lambda>c. c \<notin> set declared) (map fst conds) of
                  c # _ \<Rightarrow> (Inl (DatabaseError (UndefinedColumn c)), d)
                | [] \<Rightarrow>
                    if ''created_at'' \<in> set (map fst conds) \<or> t \<noteq> ''blocked_users''
                      then (Inl (DatabaseError FeatureNotSupported), d)
                    else
                      (case filter (\<lambda>cv. isl (uuid_param (snd cv))) conds of
                         _ # _ \<Rightarrow> (Inl (DatabaseError InvalidTextRepresentation), d)
                       | [] \<Rightarrow>
                           (Inr \<lparr>rowCount =
                                   length (filter (\<lambda>r. list_all (blocked_cond r) conds)
                                             (blocked_users d))\<rparr>,
                            d\<lparr>blocked_users :=
                                 filter (\<lambda>r. \<not> list_all (blocked_cond r) conds)
                                   (blocked_users d)\<rparr>)))))"

section \<open>The user controller\<close>

text \<open>
  Each handler of \<^verbatim>\<open>UserController\<close> takes the service method it awaits as an argument
  (\<^verbatim>\<open>services/user.service\<close> is not among the sources), and returns how it ends
  together with the stored state it leaves. A handler puts no condition on what the
  service returns: it sends the value on as it is, or ignores it. \<^verbatim>\<open>getBlockedUsers\<close>, a read that no
  property below concerns, is not modelled.
\<close>

definition ok_envelope :: "string \<Rightarrow> 'u resp_data option \<Rightarrow> 'u outcome" where
  "ok_envelope msg dat = Respond 200 \<lparr>env_error = False, env_message = msg, env_data = dat\<rparr>"

definition getAllUsers ::
    "(jsval \<Rightarrow> jsval \<Rightarrow> jsval \<Rightarrow> db \<Rightarrow> listing awaited) \<Rightarrow> request \<Rightarrow> db \<Rightarrow> 'u outcome \<times> db"
  where
  "getAllUsers service_getAllUsers req d =
     (let page = prop_default (req_query req) ''page'' (JNum 1);
          limit = prop_default (req_query req) ''limit'' (JNum 20);
          search = prop_default (req_query req) ''search'' (JStr [])
      in case service_getAllUsers (parseInt page) (parseInt limit) search d of
           (Inl e, d') \<Rightarrow> (Next e, d')
         | (Inr result, d') \<Rightarrow>
             (ok_envelope ''Users retrieved successfully'' (Some (DataListing result)), d'))"

definition getUserById ::
    "(string \<Rightarrow> db \<Rightarrow> 'u awaited) \<Rightarrow> request \<Rightarrow> db \<Rightarrow> 'u outcome \<times> db" where
  "getUserById service_getUserById req d =
     (case service_getUserById (req_params_id req) d of
        (Inl e, d') \<Rightarrow> (Next e, d')
      | (Inr user, d') \<Rightarrow> (ok_envelope ''User retrieved successfully'' (Some (DataUser user)), d'))"

text \<open>The object \<^verbatim>\<open>userData\<close> that \<^verbatim>\<open>updateUser\<close> builds from the body (lines 66--72).\<close>

definition userData_of :: "(string \<rightharpoonup> jsval) \<Rightarrow> (string \<rightharpoonup> jsval)" where
  "userData_of b =
     (let name = get_prop b ''name''; email = get_prop b ''email'';
          photo = get_prop b ''photo''; status = get_prop b ''status'';
          userData0 = Map.empty;
          userData1 = (if name \<noteq> JUndefined then userData0(''name'' \<mapsto> name) else userData0);
          userData2 = (if email \<noteq> JUndefined then userData1(''email'' \<mapsto> email) else userData1);
          userData3 = (if photo \<noteq> JUndefined then userData2(''photo'' \<mapsto> photo) else userData2)
      in if status \<noteq> JUndefined then userData3(''status'' \<mapsto> status) else userData3)"

definition updateUser ::
    "(string \<Rightarrow> (string \<rightharpoonup> jsval) \<Rightarrow> db \<Rightarrow> 'u awaited) \<Rightarrow> request \<Rightarrow> db \<Rightarrow> 'u outcome \<times> db"
  where
  "updateUser service_updateUser req d =
     (case service_updateUser (req_params_id req) (userData_of (req_body req)) d of
        (Inl e, d') \<Rightarrow> (Next e, d')
      | (Inr updatedUser, d') \<Rightarrow>
          (ok_envelope ''User updated successfully'' (Some (DataUser updatedUser)), d'))"

definition updateVerificationStatus ::
    "(string \<Rightarrow> jsval \<Rightarrow> db \<Rightarrow> 'u awaited) \<Rightarrow> request \<Rightarrow> db \<Rightarrow> 'u outcome \<times> db" where
  "updateVerificationStatus service_updateVerificationStatus req d =
     (let verified = get_prop (req_body req) ''verified''
      in if verified = JUndefined then (Next (ApiError 400 ''Verified status is required''), d)
         else case service_updateVerificationStatus (req_params_id req) verified d of
                (Inl e, d') \<Rightarrow> (Next e, d')
              | (Inr updatedUser, d') \<Rightarrow>
                  (ok_envelope
                     (''User '' @ (if truthy verified then ''verified'' else ''unverified'')
                        @ '' successfully'')
                     (Some (DataUser updatedUser)), d'))"

definition updateDisabledStatus ::
    "(string \<Rightarrow> jsval \<Rightarrow> db \<Rightarrow> 'u awaited) \<Rightarrow> request \<Rightarrow> db \<Rightarrow> 'u outcome \<times> db" where
  "updateDisabledStatus service_updateDisabledStatus req d =
     (let disabled = get_prop (req_body req) ''disabled''
      in if disabled = JUndefined then (Next (ApiError 400 ''Disabled status is required''), d)
         else case service_updateDisabledStatus (req_params_id req) disabled d of
                (Inl e, d') \<Rightarrow> (Next e, d')
              | (Inr updatedUser, d') \<Rightarrow>
                  (ok_envelope
                     (''User '' @ (if truthy disabled then ''disabled'' else ''enabled'')
                        @ '' successfully'')
                     (Some (DataUser updatedUser)), d'))"

definition deleteUser ::
    "(string \<Rightarrow> db \<Rightarrow> 'r awaited) \<Rightarrow> request \<Rightarrow> db \<Rightarrow> 'u outcome \<times> db" where
  "deleteUser service_deleteUser req d =
     (case service_deleteUser (req_params_id req) d of
        (Inl e, d') \<Rightarrow> (Next e, d')
      | (Inr _, d') \<Rightarrow> (ok_envelope ''User deleted successfully'' None, d'))"

text \<open>
  Calling \<^verbatim>\<open>query(...)\<close>: a \<^verbatim>\<open>ReferenceError\<close> when the identifier is unbound,
  otherwise the helper's answer.
\<close>

definition call_query :: "query_fn option \<Rightarrow> sql \<Rightarrow> db \<Rightarrow> query_result awaited" where
  "call_query q stmt d =
     (case q of None \<Rightarrow> (Inl (ReferenceError ''query''), d) | Some query \<Rightarrow> query stmt d)"

definition reportUser ::
    "query_fn option \<Rightarrow> (string \<Rightarrow> db \<Rightarrow> 'r awaited) \<Rightarrow> request \<Rightarrow> db \<Rightarrow> 'u outcome \<times> db"
  where
  "reportUser q service_getUserById req d =
     (let id = req_params_id req;
          reason = get_prop (req_body req) ''reason'';
          reportedBy = req_user_id req
      in if \<not> truthy reason then (Next (ApiError 400 ''Reason is required''), d)
         else if id = reportedBy then (Next (ApiError 400 ''You cannot report yourself''), d)
         else case service_getUserById id d of
                (Inl e, d1) \<Rightarrow> (Next e, d1)
              | (Inr _, d1) \<Rightarrow>
                  (case call_query q
                          (InsertInto ''reported_users'' [''user_id'', ''reported_by'', ''reason'']
                             [JStr id, JStr reportedBy, reason] False) d1 of
                     (Inl e, d2) \<Rightarrow> (Next e, d2)
                   | (Inr _, d2) \<Rightarrow> (ok_envelope ''User reported successfully'' None, d2)))"

definition blockUser ::
    "query_fn option \<Rightarrow> (string \<Rightarrow> db \<Rightarrow> 'r awaited) \<Rightarrow> request \<Rightarrow> db \<Rightarrow> 'u outcome \<times> db"
  where
  "blockUser q service_getUserById req d =
     (let id = req_params_id req;
          blockedBy = req_user_id req
      in if id = blockedBy then (Next (ApiError 400 ''You cannot block yourself''), d)
         else case service_getUserById id d of
                (Inl e, d1) \<Rightarrow> (Next e, d1)
              | (Inr _, d1) \<Rightarrow>
                  (case call_query q
                          (InsertInto ''blocked_users'' [''user_id'', ''blocked_user_id'']
                             [JStr blockedBy, JStr id] True) d1 of
                     (Inl e, d2) \<Rightarrow> (Next e, d2)
                   | (Inr _, d2) \<Rightarrow> (ok_envelope ''User blocked successfully'' None, d2)))"

definition unblockUser :: "query_fn option \<Rightarrow> request \<Rightarrow> db \<Rightarrow> 'u outcome \<times> db" where
  "unblockUser q req d =
     (let id = req_params_id req;
          blockedBy = req_user_id req
      in case call_query q
                (DeleteFrom ''blocked_users''
                   [(''user_id'', JStr blockedBy), (''blocked_user_id'', JStr id)]) d of
           (Inl e, d1) \<Rightarrow> (Next e, d1)
         | (Inr result, d1) \<Rightarrow>
             (ok_envelope
                (if rowCount result > 0 then ''User unblocked successfully''
                 else ''User was not blocked'') None, d1))"

section \<open>The domain services, from the specification\<close>

text \<open>
  Modelled from the spec: \<^verbatim>\<open>userService.getUserById\<close>
  (\<^verbatim>\<open>services/user.service\<close> is not among the sources). Section 4.3: it fails with
  NotFound if no row matches.
\<close>

definition userService_getUserById :: "string \<Rightarrow> db \<Rightarrow> users_row awaited" where
  "userService_getUserById target d =
     (case find (\<lambda>r. u_id r = target) (users d) of
        None \<Rightarrow> (Inl (ServiceError NotFound), d)
      | Some r \<Rightarrow> (Inr r, d))"

text \<open>
  Modelled from the spec: \<^verbatim>\<open>userService.updateUser\<close>
  (\<^verbatim>\<open>services/user.service\<close> is not among the sources). Section 4.3: it applies only
  the supplied fields among name, email, photo and status, fails NotFound if the target
  user is gone, and never alters phone\_number, verified, disabled or role. A supplied
  value is stored as a text parameter.
\<close>

definition apply_userData :: "(string \<rightharpoonup> jsval) \<Rightarrow> users_row \<Rightarrow> users_row" where
  "apply_userData userData r =
     r\<lparr>u_name := (case userData ''name'' of None \<Rightarrow> u_name r | Some v \<Rightarrow> text_param v),
       u_email := (case userData ''email'' of None \<Rightarrow> u_email r | Some v \<Rightarrow> text_param v),
       u_photo := (case userData ''photo'' of None \<Rightarrow> u_photo r | Some v \<Rightarrow> text_param v),
       u_status := (case userData ''status'' of None \<Rightarrow> u_status r | Some v \<Rightarrow> text_param v)\<rparr>"

definition update_users_where :: "(users_row \<Rightarrow> bool) \<Rightarrow> (users_row \<Rightarrow> users_row) \<Rightarrow> db \<Rightarrow> db" where
  "update_users_where P f d = d\<lparr>users := map (\<lambda>r. if P r then f r else r) (users d)\<rparr>"

definition userService_updateUser ::
    "string \<Rightarrow> (string \<rightharpoonup> jsval) \<Rightarrow> db \<Rightarrow> users_row awaited" where
  "userService_updateUser target userData d =
     (case find (\<lambda>r. u_id r = target) (users d) of
        None \<Rightarrow> (Inl (ServiceError NotFound), d)
      | Some r \<Rightarrow>
          (Inr (apply_userData userData r),
           update_users_where (\<lambda>x. u_id x = target) (apply_userData userData) d))"

text \<open>
  Modelled from the spec: \<^verbatim>\<open>userService.updateVerificationStatus\<close> and
  \<^verbatim>\<open>userService.updateDisabledStatus\<close> (\<^verbatim>\<open>services/user.service\<close> is not among
  the sources). Section 4.3: setting a flag that is already set succeeds with no change
  (who may call them is the routes' matter). Section 4.2: the update is one statement that
  returns the updated row, and an update that matches no row is reported as such (\<open>None\<close>),
  not as an error. The flag is stored by the truthiness of the value given.
\<close>

definition flag_param :: "jsval \<Rightarrow> bool option" where
  "flag_param v = (if v = JNull \<or> v = JUndefined then None else Some (truthy v))"

definition userService_updateVerificationStatus ::
    "string \<Rightarrow> jsval \<Rightarrow> db \<Rightarrow> users_row option awaited" where
  "userService_updateVerificationStatus target verified d =
     (Inr (map_option (\<lambda>r. r\<lparr>u_verified := flag_param verified\<rparr>)
             (find (\<lambda>r. u_id r = target) (users d))),
      update_users_where (\<lambda>x. u_id x = target) (\<lambda>x. x\<lparr>u_verified := flag_param verified\<rparr>) d)"

definition userService_updateDisabledStatus ::
    "string \<Rightarrow> jsval \<Rightarrow> db \<Rightarrow> users_row option awaited" where
  "userService_updateDisabledStatus target disabled d =
     (Inr (map_option (\<lambda>r. r\<lparr>u_disabled := flag_param disabled\<rparr>)
             (find (\<lambda>r. u_id r = target) (users d))),
      update_users_where (\<lambda>x. u_id x = target) (\<lambda>x. x\<lparr>u_disabled := flag_param disabled\<rparr>) d)"

text \<open>
  Modelled from the spec: \<^verbatim>\<open>userService.deleteUser\<close> (\<^verbatim>\<open>services/user.service\<close> is
  not among the sources). Section 4.3: it cascades per schema. Section 4.2: the delete is
  one statement that returns the affected row count, and a delete that matches no row is
  reported as such (a count of zero), not as an error.
\<close>

definition userService_deleteUser :: "string \<Rightarrow> db \<Rightarrow> nat awaited" where
  "userService_deleteUser target d =
     (Inr (length (filter (\<lambda>r. u_id r = target) (users d))), delete_user target d)"

section \<open>Messaging, from the specification\<close>

text \<open>
  Modelled from the spec: \<^verbatim>\<open>sendMessage\<close> (no messaging service is among the sources;
  section 4.4 reconstructs it from the schema). Exactly one target must be supplied
  (InvalidArgument otherwise); a direct message is Forbidden when either user has blocked
  the other; a group message is Forbidden when the sender is not a current member, or when
  \<^verbatim>\<open>only_admins_can_post\<close> is set and the sender is not a group admin. On success one
  message row is inserted and one \<^verbatim>\<open>user_messages\<close> row per intended recipient: the
  direct recipient, or every current group member except the sender. Insertion and fan-out
  are one transaction: a refused insert leaves the stored state as it was and surfaces as a
  storage failure. \<open>mid\<close> and \<open>um_ids\<close> stand for the generated UUIDs.
\<close>

definition blocked_between :: "uuid \<Rightarrow> uuid \<Rightarrow> db \<Rightarrow> bool" where
  "blocked_between a b d =
     list_ex (\<lambda>r. (b_blocker_id r = a \<and> b_blocked_id r = b)
                 \<or> (b_blocker_id r = b \<and> b_blocked_id r = a)) (blocked_users d)"

definition group_member_rows :: "uuid \<Rightarrow> db \<Rightarrow> group_members_row list" where
  "group_member_rows g d = filter (\<lambda>r. gm_group_id r = g) (group_members d)"

definition is_member :: "uuid \<Rightarrow> uuid \<Rightarrow> db \<Rightarrow> bool" where
  "is_member g u d = list_ex (\<lambda>r. gm_user_id r = u) (group_member_rows g d)"

definition is_group_admin :: "uuid \<Rightarrow> uuid \<Rightarrow> db \<Rightarrow> bool" where
  "is_group_admin g u d =
     list_ex (\<lambda>r. gm_user_id r = u \<and> gm_is_admin r = Some True) (group_member_rows g d)"

definition only_admins_can_post :: "uuid \<Rightarrow> db \<Rightarrow> bool" where
  "only_admins_can_post g d =
     list_ex (\<lambda>r. g_id r = g \<and> g_only_admins_can_post r = Some True) (groups d)"

definition recipients_of :: "uuid \<Rightarrow> uuid option \<Rightarrow> uuid option \<Rightarrow> db \<Rightarrow> uuid list" where
  "recipients_of senderId to_user to_group d =
     (case to_user of
        Some t \<Rightarrow> [t]
      | None \<Rightarrow>
          (case to_group of
             Some g \<Rightarrow> map gm_user_id (filter (\<lambda>r. gm_user_id r \<noteq> senderId) (group_member_rows g d))
           | None \<Rightarrow> []))"

fun fan_out :: "uuid \<Rightarrow> (nat \<Rightarrow> uuid) \<Rightarrow> timestamp \<Rightarrow> nat \<Rightarrow> uuid list \<Rightarrow> db \<Rightarrow> db_error + db" where
  "fan_out mid um_ids now i [] d = Inr d"
| "fan_out mid um_ids now i (u # us) d =
     (case insert_user_message
             \<lparr>um_id = um_ids i, um_user_id = u, um_message_id = mid, um_is_read = Some False,
               um_created_at = Some now\<rparr> d of
        Inl e \<Rightarrow> Inl e
      | Inr d' \<Rightarrow> fan_out mid um_ids now (Suc i) us d')"

definition sendMessage ::
    "uuid \<Rightarrow> (nat \<Rightarrow> uuid) \<Rightarrow> timestamp \<Rightarrow> uuid \<Rightarrow> uuid option \<Rightarrow> uuid option \<Rightarrow> string option
       \<Rightarrow> string option \<Rightarrow> int \<Rightarrow> db \<Rightarrow> (error_kind + unit) \<times> db" where
  "sendMessage mid um_ids now senderId to_user to_group content metadata msg_type d =
     (if (to_user = None) = (to_group = None) then (Inl InvalidArgument, d)
      else if (case to_user of Some t \<Rightarrow> blocked_between senderId t d | None \<Rightarrow> False)
        then (Inl Forbidden, d)
      else if (case to_group of
                 Some g \<Rightarrow> \<not> is_member g senderId d
                           \<or> (only_admins_can_post g d \<and> \<not> is_group_admin g senderId d)
               | None \<Rightarrow> False)
        then (Inl Forbidden, d)
      else
        (case insert_message
                \<lparr>m_id = mid, m_from_id = senderId, m_to_id = to_user, m_group_id = to_group,
                  m_content = content, m_metadata = metadata, m_type = msg_type,
                  m_created_at = Some now\<rparr> d of
           Inl e \<Rightarrow> (Inl StorageFailure, d)
         | Inr d1 \<Rightarrow>
             (case fan_out mid um_ids now 0 (recipients_of senderId to_user to_group d) d1 of
                Inl e \<Rightarrow> (Inl StorageFailure, d)
              | Inr d2 \<Rightarrow> (Inr (), d2))))"

text \<open>\<^verbatim>\<open>UNIQUE (group_id, user_id)\<close> on \<^verbatim>\<open>group_members\<close> (line 75).\<close>

definition group_members_unique :: "db \<Rightarrow> bool" where
  "group_members_unique d = distinct (map (\<lambda>r. (gm_group_id r, gm_user_id r)) (group_members d))"

text \<open>The number of recipients the claim names.\<close>

definition intended_recipient_count :: "uuid option \<Rightarrow> db \<Rightarrow> nat" where
  "intended_recipient_count to_group d =
     (case to_group of Some g \<Rightarrow> length (group_member_rows g d) - 1 | None \<Rightarrow> 1)"

section \<open>A sample state\<close>

text \<open>
  Three users; \<^verbatim>\<open>u1\<close> created group \<^verbatim>\<open>g1\<close> and \<^verbatim>\<open>u2\<close> created \<^verbatim>\<open>g2\<close>;
  \<^verbatim>\<open>u1\<close> added \<^verbatim>\<open>u3\<close> to \<^verbatim>\<open>g2\<close>. New rows carry the schema's defaults.
\<close>

definition sample_user :: "uuid \<Rightarrow> string \<Rightarrow> users_row" where
  "sample_user uid phone =
     \<lparr>u_id = uid, u_phone_number = phone, u_name = None, u_email = None, u_photo = None,
      u_status = None, u_verified = Some False, u_disabled = Some False,
      u_role = Some ''user'', u_created_at = Some 0, u_updated_at = Some 0\<rparr>"

definition sample_member :: "uuid \<Rightarrow> uuid \<Rightarrow> uuid \<Rightarrow> bool \<Rightarrow> uuid option \<Rightarrow> group_members_row" where
  "sample_member rid g u adm adder =
     \<lparr>gm_id = rid, gm_group_id = g, gm_user_id = u, gm_is_admin = Some adm, gm_added_by = adder,
      gm_joined_at = Some 1\<rparr>"

definition sample_message :: "uuid \<Rightarrow> uuid \<Rightarrow> uuid option \<Rightarrow> uuid option \<Rightarrow> messages_row" where
  "sample_message rid sender to_user to_group =
     \<lparr>m_id = rid, m_from_id = sender, m_to_id = to_user, m_group_id = to_group,
      m_content = Some ''salam'', m_metadata = None, m_type = 0, m_created_at = Some 2\<rparr>"

definition sample_user_message :: "uuid \<Rightarrow> uuid \<Rightarrow> uuid \<Rightarrow> user_messages_row" where
  "sample_user_message rid u m =
     \<lparr>um_id = rid, um_user_id = u, um_message_id = m, um_is_read = Some False,
      um_created_at = Some 2\<rparr>"

definition sample_db :: db where
  "sample_db =
     \<lparr>users = [sample_user ''u1'' ''+100'', sample_user ''u2'' ''+200'', sample_user ''u3'' ''+300''],
      otps = [\<lparr>o_id = ''o1'', o_user_id = Some ''u1'', o_phone_number = ''+100'',
                o_otp_code = ''123456'', o_expires_at = 9, o_created_at = Some 0\<rparr>,
              \<lparr>o_id = ''o2'', o_user_id = None, o_phone_number = ''+400'',
                o_otp_code = ''654321'', o_expires_at = 9, o_created_at = Some 0\<rparr>],
      sessions = [\<lparr>s_id = ''s1'', s_user_id = ''u1'', s_token = ''t1'', s_expires_at = 9,
                    s_created_at = Some 0\<rparr>,
                  \<lparr>s_id = ''s2'', s_user_id = ''u2'', s_token = ''t2'', s_expires_at = 9,
                    s_created_at = Some 0\<rparr>],
      groups = [\<lparr>g_id = ''g1'', g_name = ''family'', g_created_by = ''u1'', g_photo = None,
                  g_only_admins_can_post = Some False, g_disabled = Some False,
                  g_created_at = Some 1, g_updated_at = Some 1\<rparr>,
                \<lparr>g_id = ''g2'', g_name = ''masjid'', g_created_by = ''u2'', g_photo = None,
                  g_only_admins_can_post = Some False, g_disabled = Some False,
                  g_created_at = Some 1, g_updated_at = Some 1\<rparr>],
      group_members = [sample_member ''gm1'' ''g1'' ''u1'' True None,
                       sample_member ''gm2'' ''g1'' ''u2'' False (Some ''u1''),
                       sample_member ''gm3'' ''g2'' ''u2'' True None,
                       sample_member ''gm4'' ''g2'' ''u3'' False (Some ''u1''),
                       sample_member ''gm5'' ''g2'' ''u1'' False (Some ''u2'')],
      messages = [sample_message ''m1'' ''u2'' (Some ''u3'') None,
                  sample_message ''m2'' ''u1'' (Some ''u2'') None,
                  sample_message ''m3'' ''u2'' None (Some ''g1''),
                  sample_message ''m4'' ''u3'' None (Some ''g2'')],
      user_messages = [sample_user_message ''um1'' ''u3'' ''m1'',
                       sample_user_message ''um2'' ''u2'' ''m2'',
                       sample_user_message ''um3'' ''u1'' ''m3'',
                       sample_user_message ''um4'' ''u2'' ''m4'',
                       sample_user_message ''um5'' ''u1'' ''m4''],
      blocked_users = [\<lparr>b_id = ''b1'', b_blocker_id = ''u1'', b_blocked_id = ''u3'',
                         b_created_at = Some 3\<rparr>,
                       \<lparr>b_id = ''b2'', b_blocker_id = ''u3'', b_blocked_id = ''u2'',
                         b_created_at = Some 3\<rparr>],
      notification_tokens = [\<lparr>nt_id = ''n1'', nt_user_id = ''u1'', nt_token = ''push1'',
                               nt_device_id = None, nt_created_at = Some 3\<rparr>,
                             \<lparr>nt_id = ''n2'', nt_user_id = ''u2'', nt_token = ''push2'',
                               nt_device_id = None, nt_created_at = Some 3\<rparr>],
      reported_users = [\<lparr>ru_id = ''r1'', ru_reporter_id = ''u3'', ru_reported_id = ''u1'',
                          ru_reason = Some ''spam'', ru_created_at = Some 4\<rparr>,
                        \<lparr>ru_id = ''r2'', ru_reporter_id = ''u2'', ru_reported_id = ''u3'',
                          ru_reason = None, ru_created_at = Some 4\<rparr>],
      reported_groups = [\<lparr>rg_id = ''rg1'', rg_reporter_id = ''u3'', rg_group_id = ''g1'',
                           rg_reason = None, rg_created_at = Some 4\<rparr>,
                         \<lparr>rg_id = ''rg2'', rg_reporter_id = ''u1'', rg_group_id = ''g2'',
                           rg_reason = None, rg_created_at = Some 4\<rparr>,
                         \<lparr>rg_id = ''rg3'', rg_reporter_id = ''u3'', rg_group_id = ''g2'',
                           rg_reason = None, rg_created_at = Some 4\<rparr>]\<rparr>"

definition sample_request :: "string \<Rightarrow> uuid \<Rightarrow> (string \<times> jsval) list \<Rightarrow> request" where
  "sample_request path_id caller kvs =
     \<lparr>req_params_id = path_id, req_query = Map.empty, req_body = map_of kvs,
      req_user_id = caller\<rparr>"

section \<open>Properties of the schema\<close>

subsection \<open>Exactly one message target\<close>

text \<open>The property as the specification words it: exactly one of the two targets is set.\<close>

definition exactly_one_target :: "messages_row \<Rightarrow> bool" where
  "exactly_one_target r \<longleftrightarrow> (m_to_id r = None) \<noteq> (m_group_id r = None)"

definition messages_inv :: "db \<Rightarrow> bool" where
  "messages_inv d = list_all exactly_one_target (messages d)"

lemma messages_check_iff: "messages_check r = exactly_one_target r"
  by (auto simp: messages_check_def exactly_one_target_def)

lemma insert_message_Inr:
  "insert_message r d = Inr d' \<Longrightarrow> d' = d\<lparr>messages := messages d @ [r]\<rparr>"
  by (auto simp: insert_message_def split: if_splits)

lemma insert_message_checked: "insert_message r d = Inr d' \<Longrightarrow> exactly_one_target r"
  by (auto simp: insert_message_def messages_check_iff split: if_splits)

lemma messages_inv_insert:
  assumes "messages_inv d" and "insert_message r d = Inr d'"
  shows "messages_inv d'"
  using assms insert_message_Inr[OF assms(2)] insert_message_checked[OF assms(2)]
  by (simp add: messages_inv_def)

lemma messages_inv_delete_user: "messages_inv d \<Longrightarrow> messages_inv (delete_user u d)"
  by (simp add: messages_inv_def delete_user_def delete_users_where_def delete_groups_where_def
        delete_messages_where_def Let_def list_all_iff)

text \<open>
  C1. The check constraint of \<^verbatim>\<open>messages\<close> holds exactly of the rows with one target
  set; an insert of a row with both targets or with neither is rejected with a check
  violation; an accepted row has exactly one target and is the one row added; and "every
  row has exactly one target" holds of the empty table and is kept by every insert and by
  deleting a user with its cascades.
\<close>

theorem messages_exactly_one_target:
  "messages_check r = exactly_one_target r
   \<and> (m_to_id r \<noteq> None \<and> m_group_id r \<noteq> None \<longrightarrow> insert_message r d = Inl CheckViolation)
   \<and> (m_to_id r = None \<and> m_group_id r = None \<longrightarrow> insert_message r d = Inl CheckViolation)
   \<and> (insert_message r d = Inr d' \<longrightarrow>
         exactly_one_target r \<and> d' = d\<lparr>messages := messages d @ [r]\<rparr>)
   \<and> messages_inv empty_db
   \<and> (messages_inv d \<and> insert_message r d = Inr d' \<longrightarrow> messages_inv d')
   \<and> (messages_inv d \<longrightarrow> messages_inv (delete_user u d))"
proof (intro conjI impI)
  show "messages_check r = exactly_one_target r" by (rule messages_check_iff)
  show "insert_message r d = Inl CheckViolation" if "m_to_id r \<noteq> None \<and> m_group_id r \<noteq> None"
    using that by (simp add: insert_message_def messages_check_def)
  show "insert_message r d = Inl CheckViolation" if "m_to_id r = None \<and> m_group_id r = None"
    using that by (simp add: insert_message_def messages_check_def)
  show "exactly_one_target r" if "insert_message r d = Inr d'"
    using that by (rule insert_message_checked)
  show "d' = d\<lparr>messages := messages d @ [r]\<rparr>" if "insert_message r d = Inr d'"
    using that by (rule insert_message_Inr)
  show "messages_inv empty_db" by (simp add: messages_inv_def empty_db_def)
  show "messages_inv d'" if "messages_inv d \<and> insert_message r d = Inr d'"
    using that messages_inv_insert by blast
  show "messages_inv (delete_user u d)" if "messages_inv d"
    using that by (rule messages_inv_delete_user)
qed

lemma sample_db_messages_inv: "messages_inv sample_db"
  by (simp add: messages_inv_def sample_db_def sample_message_def exactly_one_target_def)

lemma sample_db_user_ids: "user_ids sample_db = {''u1'', ''u2'', ''u3''}"
  by (simp add: user_ids_def sample_db_def sample_user_def)

lemma sample_db_group_ids: "group_ids sample_db = {''g1'', ''g2''}"
  by (simp add: group_ids_def sample_db_def)

lemma sample_db_message_ids: "message_ids sample_db = {''m1'', ''m2'', ''m3'', ''m4''}"
  by (simp add: message_ids_def sample_db_def sample_message_def)

lemma sample_insert_direct:
  "insert_message (sample_message ''m5'' ''u1'' (Some ''u3'') None) sample_db =
     Inr (sample_db\<lparr>messages := messages sample_db
                       @ [sample_message ''m5'' ''u1'' (Some ''u3'') None]\<rparr>)"
  by (simp add: insert_message_def messages_check_def fk_ok_def sample_db_user_ids
        sample_db_group_ids sample_db_message_ids) (simp add: sample_message_def)

theorem messages_exactly_one_target_witness:
  "insert_message (sample_message ''m5'' ''u1'' (Some ''u3'') (Some ''g1'')) sample_db
     = Inl CheckViolation
   \<and> insert_message (sample_message ''m5'' ''u1'' None None) sample_db = Inl CheckViolation
   \<and> exactly_one_target (sample_message ''m5'' ''u1'' (Some ''u3'') None)
   \<and> messages_inv (sample_db\<lparr>messages := messages sample_db
                       @ [sample_message ''m5'' ''u1'' (Some ''u3'') None]\<rparr>)
   \<and> messages_inv (delete_user ''u1'' sample_db)"
proof -
  have both: "insert_message (sample_message ''m5'' ''u1'' (Some ''u3'') (Some ''g1'')) sample_db
      = Inl CheckViolation"
    using messages_exactly_one_target
      [of "sample_message ''m5'' ''u1'' (Some ''u3'') (Some ''g1'')" sample_db]
    by (simp add: sample_message_def)
  have neither: "insert_message (sample_message ''m5'' ''u1'' None None) sample_db
      = Inl CheckViolation"
    using messages_exactly_one_target [of "sample_message ''m5'' ''u1'' None None" sample_db]
    by (simp add: sample_message_def)
  have direct: "exactly_one_target (sample_message ''m5'' ''u1'' (Some ''u3'') None)
      \<and> messages_inv (sample_db\<lparr>messages := messages sample_db
                       @ [sample_message ''m5'' ''u1'' (Some ''u3'') None]\<rparr>)
      \<and> messages_inv (delete_user ''u1'' sample_db)"
    using messages_exactly_one_target
      [of "sample_message ''m5'' ''u1'' (Some ''u3'') None" sample_db
          "sample_db\<lparr>messages := messages sample_db
                       @ [sample_message ''m5'' ''u1'' (Some ''u3'') None]\<rparr>" "''u1''"]
      sample_insert_direct sample_db_messages_inv
    by simp
  from both neither direct show ?thesis by simp
qed

subsection \<open>Deleting a user\<close>

text \<open>
  The groups a user created, and the messages that go with a user: those the user sent
  or received and those posted in a group the user created.
\<close>

definition created_groups :: "uuid \<Rightarrow> db \<Rightarrow> uuid set" where
  "created_groups u d = set (map g_id (filter (\<lambda>g. g_created_by g = u) (groups d)))"

definition message_of_user :: "uuid \<Rightarrow> db \<Rightarrow> messages_row \<Rightarrow> bool" where
  "message_of_user u d m \<longleftrightarrow>
     m_from_id m = u \<or> m_to_id m = Some u \<or> m_group_id m \<in> Some ` created_groups u d"

definition messages_of_user :: "uuid \<Rightarrow> db \<Rightarrow> uuid set" where
  "messages_of_user u d = set (map m_id (filter (message_of_user u d) (messages d)))"

text \<open>Some row of some table holds \<open>u\<close> in a column that references \<^verbatim>\<open>users(id)\<close>.\<close>

definition references_user :: "uuid \<Rightarrow> db \<Rightarrow> bool" where
  "references_user u d \<longleftrightarrow>
     list_ex (\<lambda>r. o_user_id r = Some u) (otps d)
     \<or> list_ex (\<lambda>r. s_user_id r = u) (sessions d)
     \<or> list_ex (\<lambda>r. g_created_by r = u) (groups d)
     \<or> list_ex (\<lambda>r. gm_user_id r = u \<or> gm_added_by r = Some u) (group_members d)
     \<or> list_ex (\<lambda>r. m_from_id r = u \<or> m_to_id r = Some u) (messages d)
     \<or> list_ex (\<lambda>r. um_user_id r = u) (user_messages d)
     \<or> list_ex (\<lambda>r. b_blocker_id r = u \<or> b_blocked_id r = u) (blocked_users d)
     \<or> list_ex (\<lambda>r. nt_user_id r = u) (notification_tokens d)
     \<or> list_ex (\<lambda>r. ru_reporter_id r = u \<or> ru_reported_id r = u) (reported_users d)
     \<or> list_ex (\<lambda>r. rg_reporter_id r = u) (reported_groups d)"

text \<open>What \<^verbatim>\<open>ON DELETE SET NULL\<close> does to a membership row that survives.\<close>

definition forget_adder :: "uuid \<Rightarrow> group_members_row \<Rightarrow> group_members_row" where
  "forget_adder u r = (if gm_added_by r = Some u then r\<lparr>gm_added_by := None\<rparr> else r)"

lemma fk_ok_compl: "fk_ok ref (- S) \<longleftrightarrow> ref \<notin> Some ` S"
  by (auto simp: fk_ok_def split: option.splits)

lemma gone_user:
  "u \<in> user_ids d \<Longrightarrow> set (map u_id (filter (\<lambda>r. u_id r = u) (users d))) = {u}"
  by (auto simp: user_ids_def)

lemmas delete_user_unfold =
  delete_user_def delete_users_where_def delete_groups_where_def delete_messages_where_def
  Let_def fk_ok_compl gone_user

lemma delete_user_users:
  "users (delete_user u d) = filter (\<lambda>r. u_id r \<noteq> u) (users d)"
  by (simp add: delete_user_unfold)

lemma delete_user_otps:
  "u \<in> user_ids d \<Longrightarrow>
     otps (delete_user u d) = filter (\<lambda>r. o_user_id r \<noteq> Some u) (otps d)"
  by (simp add: delete_user_unfold del: set_map set_filter)

lemma delete_user_sessions:
  "u \<in> user_ids d \<Longrightarrow>
     sessions (delete_user u d) = filter (\<lambda>r. s_user_id r \<noteq> u) (sessions d)"
  by (simp add: delete_user_unfold del: set_map set_filter)

lemma delete_user_groups:
  "u \<in> user_ids d \<Longrightarrow>
     groups (delete_user u d) = filter (\<lambda>r. g_created_by r \<noteq> u) (groups d)"
  by (simp add: delete_user_unfold del: set_map set_filter)

lemma delete_user_group_members:
  assumes "u \<in> user_ids d"
  shows "group_members (delete_user u d) =
     map (forget_adder u)
       (filter (\<lambda>r. gm_user_id r \<noteq> u \<and> gm_group_id r \<notin> created_groups u d)
          (group_members d))"
proof -
  have "group_members (delete_user u d) =
      filter (\<lambda>r. gm_group_id r \<notin> created_groups u d)
        (map (\<lambda>r. if gm_added_by r \<noteq> Some u then r else r\<lparr>gm_added_by := None\<rparr>)
           (filter (\<lambda>r. gm_user_id r \<noteq> u) (group_members d)))"
    using assms
    by (simp add: delete_user_unfold created_groups_def del: set_map set_filter)
  also have "\<dots> = map (\<lambda>r. if gm_added_by r \<noteq> Some u then r else r\<lparr>gm_added_by := None\<rparr>)
       (filter (\<lambda>r. gm_user_id r \<noteq> u \<and> gm_group_id r \<notin> created_groups u d)
          (group_members d))"
    by (simp add: filter_map o_def conj_commute cong: if_cong)
  also have "\<dots> = map (forget_adder u)
       (filter (\<lambda>r. gm_user_id r \<noteq> u \<and> gm_group_id r \<notin> created_groups u d)
          (group_members d))"
    by (rule map_cong[OF refl]) (simp add: forget_adder_def)
  finally show ?thesis .
qed

lemma delete_user_messages:
  assumes "u \<in> user_ids d"
  shows "messages (delete_user u d) = filter (\<lambda>r. \<not> message_of_user u d r) (messages d)"
proof -
  have "messages (delete_user u d) =
      filter (\<lambda>r. \<not> (m_from_id r = u \<or> m_to_id r = Some u))
        (filter (\<lambda>r. m_group_id r \<notin> Some ` created_groups u d) (messages d))"
    using assms by (simp add: delete_user_unfold created_groups_def del: set_map set_filter)
  also have "\<dots> = filter (\<lambda>r. \<not> message_of_user u d r) (messages d)"
    by (auto simp: message_of_user_def intro: filter_cong)
  finally show ?thesis .
qed

lemma delete_user_user_messages:
  assumes "u \<in> user_ids d"
  shows "user_messages (delete_user u d) =
     filter (\<lambda>r. um_user_id r \<noteq> u \<and> um_message_id r \<notin> messages_of_user u d)
       (user_messages d)"
proof -
  have "user_messages (delete_user u d) =
      filter (\<lambda>r. um_user_id r \<noteq> u
                \<and> um_message_id r \<notin> set (map m_id (filter
                      (\<lambda>m. m_group_id m \<in> Some ` created_groups u d) (messages d)))
                \<and> um_message_id r \<notin> set (map m_id (filter
                      (\<lambda>m. m_group_id m \<notin> Some ` created_groups u d
                            \<and> (m_from_id m = u \<or> m_to_id m = Some u)) (messages d))))
        (user_messages d)"
    using assms
    by (simp add: delete_user_unfold created_groups_def conj_commute conj_left_commute
          del: set_map set_filter)
  also have "\<dots> = filter (\<lambda>r. um_user_id r \<noteq> u \<and> um_message_id r \<notin> messages_of_user u d)
       (user_messages d)"
    by (rule filter_cong[OF refl]) (auto simp: messages_of_user_def message_of_user_def)
  finally show ?thesis .
qed

lemma delete_user_blocked_users:
  "u \<in> user_ids d \<Longrightarrow> blocked_users (delete_user u d) =
     filter (\<lambda>r. b_blocker_id r \<noteq> u \<and> b_blocked_id r \<noteq> u) (blocked_users d)"
  by (simp add: delete_user_unfold del: set_map set_filter)

lemma delete_user_notification_tokens:
  "u \<in> user_ids d \<Longrightarrow> notification_tokens (delete_user u d) =
     filter (\<lambda>r. nt_user_id r \<noteq> u) (notification_tokens d)"
  by (simp add: delete_user_unfold del: set_map set_filter)

lemma delete_user_reported_users:
  "u \<in> user_ids d \<Longrightarrow> reported_users (delete_user u d) =
     filter (\<lambda>r. ru_reporter_id r \<noteq> u \<and> ru_reported_id r \<noteq> u) (reported_users d)"
  by (simp add: delete_user_unfold del: set_map set_filter)

lemma delete_user_reported_groups:
  assumes "u \<in> user_ids d"
  shows "reported_groups (delete_user u d) =
     filter (\<lambda>r. rg_reporter_id r \<noteq> u \<and> rg_group_id r \<notin> created_groups u d)
       (reported_groups d)"
proof -
  have "reported_groups (delete_user u d) =
      filter (\<lambda>r. rg_group_id r \<notin> created_groups u d)
        (filter (\<lambda>r. rg_reporter_id r \<noteq> u) (reported_groups d))"
    using assms by (simp add: delete_user_unfold created_groups_def del: set_map set_filter)
  then show ?thesis by (simp add: conj_commute)
qed

lemmas delete_user_tables =
  delete_user_users delete_user_otps delete_user_sessions delete_user_groups
  delete_user_group_members delete_user_messages delete_user_user_messages
  delete_user_blocked_users delete_user_notification_tokens delete_user_reported_users
  delete_user_reported_groups

lemma delete_user_no_reference:
  assumes "u \<in> user_ids d"
  shows "\<not> references_user u (delete_user u d)"
  using assms
  by (auto simp: references_user_def delete_user_tables list_ex_iff forget_adder_def
        message_of_user_def)

text \<open>
  C8. Deleting an existing user leaves no row that references the user in any column
  pointing at \<^verbatim>\<open>users(id)\<close>: the user's OTPs, sessions, created groups, memberships,
  sent and received messages, per-recipient rows, block rows in either role, notification
  tokens and reports in either role are removed, together with what hangs on a removed
  group or message. The one exception is \<^verbatim>\<open>group_members.added_by\<close>: a membership of
  another user in a surviving group is kept, with \<^verbatim>\<open>added_by\<close> set to null where it
  named the deleted user. Every other row is kept as it was.
\<close>

theorem delete_user_cascades:
  assumes "u \<in> user_ids d"
  shows "u \<notin> user_ids (delete_user u d)
    \<and> \<not> references_user u (delete_user u d)
    \<and> users (delete_user u d) = filter (\<lambda>r. u_id r \<noteq> u) (users d)
    \<and> otps (delete_user u d) = filter (\<lambda>r. o_user_id r \<noteq> Some u) (otps d)
    \<and> sessions (delete_user u d) = filter (\<lambda>r. s_user_id r \<noteq> u) (sessions d)
    \<and> groups (delete_user u d) = filter (\<lambda>r. g_created_by r \<noteq> u) (groups d)
    \<and> group_members (delete_user u d) =
        map (forget_adder u)
          (filter (\<lambda>r. gm_user_id r \<noteq> u \<and> gm_group_id r \<notin> created_groups u d)
             (group_members d))
    \<and> messages (delete_user u d) = filter (\<lambda>r. \<not> message_of_user u d r) (messages d)
    \<and> user_messages (delete_user u d) =
        filter (\<lambda>r. um_user_id r \<noteq> u \<and> um_message_id r \<notin> messages_of_user u d)
          (user_messages d)
    \<and> blocked_users (delete_user u d) =
        filter (\<lambda>r. b_blocker_id r \<noteq> u \<and> b_blocked_id r \<noteq> u) (blocked_users d)
    \<and> notification_tokens (delete_user u d) =
        filter (\<lambda>r. nt_user_id r \<noteq> u) (notification_tokens d)
    \<and> reported_users (delete_user u d) =
        filter (\<lambda>r. ru_reporter_id r \<noteq> u \<and> ru_reported_id r \<noteq> u) (reported_users d)
    \<and> reported_groups (delete_user u d) =
        filter (\<lambda>r. rg_reporter_id r \<noteq> u \<and> rg_group_id r \<notin> created_groups u d)
          (reported_groups d)"
proof -
  have "u \<notin> user_ids (delete_user u d)"
    by (auto simp: user_ids_def delete_user_users)
  moreover note delete_user_no_reference[OF assms]
  ultimately show ?thesis
    using assms by (simp only: delete_user_tables simp_thms)
qed

lemma sample_created_groups: "created_groups ''u1'' sample_db = {''g1''}"
  by (simp add: created_groups_def sample_db_def)

lemma sample_messages_of_user: "messages_of_user ''u1'' sample_db = {''m2'', ''m3''}"
  unfolding messages_of_user_def message_of_user_def sample_created_groups
  by (simp add: sample_db_def sample_message_def)

theorem delete_user_cascades_witness:
  "''u1'' \<in> user_ids sample_db
   \<and> \<not> references_user ''u1'' (delete_user ''u1'' sample_db)
   \<and> map u_id (users (delete_user ''u1'' sample_db)) = [''u2'', ''u3'']
   \<and> map o_id (otps (delete_user ''u1'' sample_db)) = [''o2'']
   \<and> map s_id (sessions (delete_user ''u1'' sample_db)) = [''s2'']
   \<and> map g_id (groups (delete_user ''u1'' sample_db)) = [''g2'']
   \<and> group_members (delete_user ''u1'' sample_db) =
       [sample_member ''gm3'' ''g2'' ''u2'' True None,
        sample_member ''gm4'' ''g2'' ''u3'' False None]
   \<and> map m_id (messages (delete_user ''u1'' sample_db)) = [''m1'', ''m4'']
   \<and> map um_id (user_messages (delete_user ''u1'' sample_db)) = [''um1'', ''um4'']
   \<and> map b_id (blocked_users (delete_user ''u1'' sample_db)) = [''b2'']
   \<and> map nt_id (notification_tokens (delete_user ''u1'' sample_db)) = [''n2'']
   \<and> map ru_id (reported_users (delete_user ''u1'' sample_db)) = [''r2'']
   \<and> map rg_id (reported_groups (delete_user ''u1'' sample_db)) = [''rg3'']"
proof -
  have mem: "''u1'' \<in> user_ids sample_db"
    by (simp add: sample_db_user_ids)
  note after = delete_user_cascades[OF mem]
  have "map u_id (users (delete_user ''u1'' sample_db)) = [''u2'', ''u3'']"
    using after by (simp add: sample_db_def sample_user_def)
  moreover have "map o_id (otps (delete_user ''u1'' sample_db)) = [''o2'']"
    using after by (simp add: sample_db_def)
  moreover have "map s_id (sessions (delete_user ''u1'' sample_db)) = [''s2'']"
    using after by (simp add: sample_db_def)
  moreover have "map g_id (groups (delete_user ''u1'' sample_db)) = [''g2'']"
    using after by (simp add: sample_db_def)
  moreover have "group_members (delete_user ''u1'' sample_db) =
       [sample_member ''gm3'' ''g2'' ''u2'' True None,
        sample_member ''gm4'' ''g2'' ''u3'' False None]"
    using after
    by (simp add: sample_created_groups) (simp add: sample_db_def sample_member_def forget_adder_def)
  moreover have "map m_id (messages (delete_user ''u1'' sample_db)) = [''m1'', ''m4'']"
    using after
    by (simp add: message_of_user_def sample_created_groups)
       (simp add: sample_db_def sample_message_def)
  moreover have "map um_id (user_messages (delete_user ''u1'' sample_db)) = [''um1'', ''um4'']"
    using after
    by (simp add: sample_messages_of_user) (simp add: sample_db_def sample_user_message_def)
  moreover have "map b_id (blocked_users (delete_user ''u1'' sample_db)) = [''b2'']"
    using after by (simp add: sample_db_def)
  moreover have "map nt_id (notification_tokens (delete_user ''u1'' sample_db)) = [''n2'']"
    using after by (simp add: sample_db_def)
  moreover have "map ru_id (reported_users (delete_user ''u1'' sample_db)) = [''r2'']"
    using after by (simp add: sample_db_def)
  moreover have "map rg_id (reported_groups (delete_user ''u1'' sample_db)) = [''rg3'']"
    using after by (simp add: sample_created_groups) (simp add: sample_db_def)
  ultimately show ?thesis
    using mem after by simp
qed

section \<open>Properties of the controller\<close>

subsection \<open>Listing defaults\<close>

text \<open>The query string that spells the defaults out.\<close>

definition query_defaults :: "string \<rightharpoonup> jsval" where
  "query_defaults = [''page'' \<mapsto> JStr ''1'', ''limit'' \<mapsto> JStr ''20'', ''search'' \<mapsto> JStr []]"

lemma parseInt_default_page: "parseInt (JNum 1) = JNum 1" "parseInt (JStr ''1'') = JNum 1"
  by code_simp+

lemma parseInt_default_limit: "parseInt (JNum 20) = JNum 20" "parseInt (JStr ''20'') = JNum 20"
  by code_simp+

lemma page_default:
  "parseInt (prop_default (query_defaults ++ q) ''page'' (JNum 1))
     = parseInt (prop_default q ''page'' (JNum 1))"
  by (cases "q ''page''")
     (auto simp: prop_default_def get_prop_def query_defaults_def map_add_def
        parseInt_default_page)

lemma limit_default:
  "parseInt (prop_default (query_defaults ++ q) ''limit'' (JNum 20))
     = parseInt (prop_default q ''limit'' (JNum 20))"
  by (cases "q ''limit''")
     (auto simp: prop_default_def get_prop_def query_defaults_def map_add_def
        parseInt_default_limit)

lemma search_default:
  "prop_default (query_defaults ++ q) ''search'' (JStr [])
     = prop_default q ''search'' (JStr [])"
  by (cases "q ''search''")
     (auto simp: prop_default_def get_prop_def query_defaults_def map_add_def)

lemma prop_default_absent: "obj k = None \<Longrightarrow> prop_default obj k dflt = dflt"
  by (simp add: prop_default_def get_prop_def)

lemma page_argument:
  "parseInt (prop_default q ''page'' (JNum 1)) =
     (case q ''page'' of
        None \<Rightarrow> JNum 1
      | Some v \<Rightarrow> if v = JUndefined then JNum 1 else parseInt v)"
  by (simp add: prop_default_def get_prop_def parseInt_default_page split: option.splits)

lemma limit_argument:
  "parseInt (prop_default q ''limit'' (JNum 20)) =
     (case q ''limit'' of
        None \<Rightarrow> JNum 20
      | Some v \<Rightarrow> if v = JUndefined then JNum 20 else parseInt v)"
  by (simp add: prop_default_def get_prop_def parseInt_default_limit split: option.splits)

lemma search_argument:
  "prop_default q ''search'' (JStr []) =
     (case q ''search'' of
        None \<Rightarrow> JStr []
      | Some v \<Rightarrow> if v = JUndefined then JStr [] else v)"
  by (simp add: prop_default_def get_prop_def split: option.splits)

text \<open>
  C10. For every service and every request, \<^verbatim>\<open>getAllUsers\<close> calls the service exactly
  once, with these three arguments: for the page, the number 1 when \<^verbatim>\<open>page\<close> is absent
  and \<^verbatim>\<open>parseInt\<close> of the parameter otherwise; for the limit, the number 20 when
  \<^verbatim>\<open>limit\<close> is absent and \<^verbatim>\<open>parseInt\<close> of the parameter otherwise; for the search,
  the empty string when \<^verbatim>\<open>search\<close> is absent and the parameter as it is otherwise; and it
  answers with what that call gives. So a request behaves as the same request with each
  absent parameter filled in as \<^verbatim>\<open>page=1\<close>, \<^verbatim>\<open>limit=20\<close>, \<^verbatim>\<open>search=\<close>, and the
  request with no parameter at all as the one that spells all three out, with the service
  called on 1, 20 and the empty string.
\<close>

theorem getAllUsers_defaults:
  "getAllUsers svc req d =
     (case svc
             (case req_query req ''page'' of
                None \<Rightarrow> JNum 1
              | Some v \<Rightarrow> if v = JUndefined then JNum 1 else parseInt v)
             (case req_query req ''limit'' of
                None \<Rightarrow> JNum 20
              | Some v \<Rightarrow> if v = JUndefined then JNum 20 else parseInt v)
             (case req_query req ''search'' of
                None \<Rightarrow> JStr []
              | Some v \<Rightarrow> if v = JUndefined then JStr [] else v)
             d of
        (Inl e, d') \<Rightarrow> (Next e, d')
      | (Inr result, d') \<Rightarrow>
          (ok_envelope ''Users retrieved successfully'' (Some (DataListing result)), d'))
   \<and> getAllUsers svc req d
     = getAllUsers svc (req\<lparr>req_query := query_defaults ++ req_query req\<rparr>) d
   \<and> getAllUsers svc (req\<lparr>req_query := Map.empty\<rparr>) d
     = getAllUsers svc (req\<lparr>req_query := query_defaults\<rparr>) d
   \<and> getAllUsers svc (req\<lparr>req_query := Map.empty\<rparr>) d =
       (case svc (JNum 1) (JNum 20) (JStr []) d of
          (Inl e, d') \<Rightarrow> (Next e, d')
        | (Inr result, d') \<Rightarrow>
            (ok_envelope ''Users retrieved successfully'' (Some (DataListing result)), d'))"
proof (intro conjI)
  show "getAllUsers svc req d =
     (case svc
             (case req_query req ''page'' of
                None \<Rightarrow> JNum 1
              | Some v \<Rightarrow> if v = JUndefined then JNum 1 else parseInt v)
             (case req_query req ''limit'' of
                None \<Rightarrow> JNum 20
              | Some v \<Rightarrow> if v = JUndefined then JNum 20 else parseInt v)
             (case req_query req ''search'' of
                None \<Rightarrow> JStr []
              | Some v \<Rightarrow> if v = JUndefined then JStr [] else v)
             d of
        (Inl e, d') \<Rightarrow> (Next e, d')
      | (Inr result, d') \<Rightarrow>
          (ok_envelope ''Users retrieved successfully'' (Some (DataListing result)), d'))"
    unfolding getAllUsers_def Let_def page_argument limit_argument search_argument ..
  show "getAllUsers svc req d
     = getAllUsers svc (req\<lparr>req_query := query_defaults ++ req_query req\<rparr>) d"
    by (simp add: getAllUsers_def page_default limit_default search_default)
  show "getAllUsers svc (req\<lparr>req_query := Map.empty\<rparr>) d
     = getAllUsers svc (req\<lparr>req_query := query_defaults\<rparr>) d"
    using page_default[of Map.empty] limit_default[of Map.empty] search_default[of Map.empty]
    by (simp add: getAllUsers_def)
  show "getAllUsers svc (req\<lparr>req_query := Map.empty\<rparr>) d =
       (case svc (JNum 1) (JNum 20) (JStr []) d of
          (Inl e, d') \<Rightarrow> (Next e, d')
        | (Inr result, d') \<Rightarrow>
            (ok_envelope ''Users retrieved successfully'' (Some (DataListing result)), d'))"
    by (simp add: getAllUsers_def prop_default_absent parseInt_default_page
          parseInt_default_limit)
qed

text \<open>
  A listing service whose result shows the arguments it was called with: the page as the
  count, the limit as the number of items, the search as the phone number left out.
\<close>

definition echo_listing :: "jsval \<Rightarrow> jsval \<Rightarrow> jsval \<Rightarrow> db \<Rightarrow> listing awaited" where
  "echo_listing page limit search d =
     (case (page, limit, search) of
        (JNum p, JNum l, JStr s) \<Rightarrow>
          (Inr \<lparr>items = take (nat l) (filter (\<lambda>u. u_phone_number u \<noteq> s) (users d)),
                totalCount = nat p\<rparr>, d)
      | _ \<Rightarrow> (Inl (ServiceError InvalidArgument), d))"

lemma parseInt_samples: "parseInt (JStr ''2'') = JNum 2" "parseInt (JStr ''3'') = JNum 3"
  by code_simp+

theorem getAllUsers_defaults_witness:
  "getAllUsers echo_listing (sample_request [] ''u1'' []) sample_db
     = (ok_envelope ''Users retrieved successfully''
          (Some (DataListing \<lparr>items = users sample_db, totalCount = 1\<rparr>)), sample_db)
   \<and> getAllUsers echo_listing
        ((sample_request [] ''u1'' [])\<lparr>req_query := [''limit'' \<mapsto> JStr ''2'']\<rparr>) sample_db
     = (ok_envelope ''Users retrieved successfully''
          (Some (DataListing \<lparr>items = [sample_user ''u1'' ''+100'', sample_user ''u2'' ''+200''],
                               totalCount = 1\<rparr>)), sample_db)
   \<and> getAllUsers echo_listing
        ((sample_request [] ''u1'' [])
           \<lparr>req_query := [''page'' \<mapsto> JStr ''3'', ''search'' \<mapsto> JStr ''+100'']\<rparr>) sample_db
     = (ok_envelope ''Users retrieved successfully''
          (Some (DataListing \<lparr>items = [sample_user ''u2'' ''+200'', sample_user ''u3'' ''+300''],
                               totalCount = 3\<rparr>)), sample_db)
   \<and> getAllUsers echo_listing
        ((sample_request [] ''u1'' [])\<lparr>req_query := [''limit'' \<mapsto> JStr ''2'']\<rparr>) sample_db
     = getAllUsers echo_listing
        ((sample_request [] ''u1'' [])
           \<lparr>req_query := [''page'' \<mapsto> JStr ''1'', ''limit'' \<mapsto> JStr ''2'', ''search'' \<mapsto> JStr []]\<rparr>)
        sample_db"
proof -
  have empty: "(sample_request [] ''u1'' [])\<lparr>req_query := Map.empty\<rparr> = sample_request [] ''u1'' []"
    by (simp add: sample_request_def)
  have filled: "query_defaults(''limit'' \<mapsto> JStr ''2'')
      = [''page'' \<mapsto> JStr ''1'', ''limit'' \<mapsto> JStr ''2'', ''search'' \<mapsto> JStr []]"
    by (auto simp: query_defaults_def fun_eq_iff)
  have people: "users sample_db
      = [sample_user ''u1'' ''+100'', sample_user ''u2'' ''+200'', sample_user ''u3'' ''+300'']"
    by (simp add: sample_db_def)
  have "getAllUsers echo_listing (sample_request [] ''u1'' []) sample_db
     = (ok_envelope ''Users retrieved successfully''
          (Some (DataListing \<lparr>items = users sample_db, totalCount = 1\<rparr>)), sample_db)"
    using getAllUsers_defaults[of echo_listing "sample_request [] ''u1'' []" sample_db,
        THEN conjunct2, THEN conjunct2, THEN conjunct2]
    unfolding empty echo_listing_def
    by (simp add: people sample_user_def)
  moreover have "getAllUsers echo_listing
        ((sample_request [] ''u1'' [])\<lparr>req_query := [''limit'' \<mapsto> JStr ''2'']\<rparr>) sample_db
     = (ok_envelope ''Users retrieved successfully''
          (Some (DataListing \<lparr>items = [sample_user ''u1'' ''+100'', sample_user ''u2'' ''+200''],
                               totalCount = 1\<rparr>)), sample_db)"
    using getAllUsers_defaults
      [of echo_listing "(sample_request [] ''u1'' [])\<lparr>req_query := [''limit'' \<mapsto> JStr ''2'']\<rparr>"
          sample_db, THEN conjunct1]
    unfolding echo_listing_def
    by (simp add: parseInt_samples people sample_user_def)
  moreover have "getAllUsers echo_listing
        ((sample_request [] ''u1'' [])
           \<lparr>req_query := [''page'' \<mapsto> JStr ''3'', ''search'' \<mapsto> JStr ''+100'']\<rparr>) sample_db
     = (ok_envelope ''Users retrieved successfully''
          (Some (DataListing \<lparr>items = [sample_user ''u2'' ''+200'', sample_user ''u3'' ''+300''],
                               totalCount = 3\<rparr>)), sample_db)"
    using getAllUsers_defaults
      [of echo_listing
          "(sample_request [] ''u1'' [])
             \<lparr>req_query := [''page'' \<mapsto> JStr ''3'', ''search'' \<mapsto> JStr ''+100'']\<rparr>"
          sample_db, THEN conjunct1]
    unfolding echo_listing_def
    by (simp add: parseInt_samples people sample_user_def)
  moreover have "getAllUsers echo_listing
        ((sample_request [] ''u1'' [])\<lparr>req_query := [''limit'' \<mapsto> JStr ''2'']\<rparr>) sample_db
     = getAllUsers echo_listing
        ((sample_request [] ''u1'' [])
           \<lparr>req_query := [''page'' \<mapsto> JStr ''1'', ''limit'' \<mapsto> JStr ''2'', ''search'' \<mapsto> JStr []]\<rparr>)
        sample_db"
    using getAllUsers_defaults
      [of echo_listing "(sample_request [] ''u1'' [])\<lparr>req_query := [''limit'' \<mapsto> JStr ''2'']\<rparr>"
          sample_db, THEN conjunct2, THEN conjunct1]
    by (simp add: filled)
  ultimately show ?thesis by simp
qed

subsection \<open>Required status fields\<close>

text \<open>
  C9. When the body has no \<^verbatim>\<open>verified\<close> field (respectively no \<^verbatim>\<open>disabled\<close>
  field), the handler ends with \<^verbatim>\<open>next(new ApiError(400, ...))\<close> carrying the message
  \<^verbatim>\<open>Verified status is required\<close> (respectively \<^verbatim>\<open>Disabled status is required\<close>), an
  InvalidArgument, whatever the service is: the service is not consulted and the stored
  state is the one the handler started from.
\<close>

theorem status_field_required:
  "(req_body req ''verified'' = None \<longrightarrow>
      updateVerificationStatus svc req d
        = (Next (ApiError 400 ''Verified status is required''), d))
   \<and> (req_body req ''disabled'' = None \<longrightarrow>
      updateDisabledStatus svc' req d
        = (Next (ApiError 400 ''Disabled status is required''), d))
   \<and> error_kind_of (ApiError 400 ''Verified status is required'') = Some InvalidArgument
   \<and> error_kind_of (ApiError 400 ''Disabled status is required'') = Some InvalidArgument"
  by (simp add: updateVerificationStatus_def updateDisabledStatus_def error_kind_of_def
        get_prop_def)

theorem status_field_required_witness:
  "req_body (sample_request ''u2'' ''u1'' [(''note'', JStr ''x'')]) ''verified'' = None
   \<and> req_body (sample_request ''u2'' ''u1'' [(''note'', JStr ''x'')]) ''disabled'' = None
   \<and> updateVerificationStatus userService_updateVerificationStatus
        (sample_request ''u2'' ''u1'' [(''note'', JStr ''x'')]) sample_db
       = (Next (ApiError 400 ''Verified status is required''), sample_db)
   \<and> updateDisabledStatus userService_updateDisabledStatus
        (sample_request ''u2'' ''u1'' [(''note'', JStr ''x'')]) sample_db
       = (Next (ApiError 400 ''Disabled status is required''), sample_db)"
proof -
  have absent:
    "req_body (sample_request ''u2'' ''u1'' [(''note'', JStr ''x'')]) ''verified'' = None"
    "req_body (sample_request ''u2'' ''u1'' [(''note'', JStr ''x'')]) ''disabled'' = None"
    by (simp_all add: sample_request_def)
  show ?thesis
    using absent
      status_field_required
        [of "sample_request ''u2'' ''u1'' [(''note'', JStr ''x'')]"
            userService_updateVerificationStatus sample_db userService_updateDisabledStatus]
    by simp
qed

subsection \<open>Reporting, blocking and unblocking\<close>

text \<open>The validation steps of \<^verbatim>\<open>reportUser\<close> and \<^verbatim>\<open>blockUser\<close> (lines 173--180, 212--214).\<close>

lemma reportUser_reason_required:
  "\<not> truthy (get_prop (req_body req) ''reason'') \<Longrightarrow>
     reportUser q svc req d = (Next (ApiError 400 ''Reason is required''), d)"
  by (simp add: reportUser_def Let_def)

lemma reportUser_self:
  "req_params_id req = req_user_id req \<Longrightarrow>
     \<exists>msg. reportUser q svc req d = (Next (ApiError 400 msg), d)"
  by (simp add: reportUser_def Let_def)

lemma blockUser_self:
  "req_params_id req = req_user_id req \<Longrightarrow>
     blockUser q svc req d = (Next (ApiError 400 ''You cannot block yourself''), d)"
  by (simp add: blockUser_def Let_def)

text \<open>
  The existence check comes before the statement: when \<^verbatim>\<open>getUserById\<close> throws, the
  handler forwards the error and \<^verbatim>\<open>query\<close> is not reached, whatever it is bound to.
\<close>

lemma reportUser_existence_first:
  assumes "truthy (get_prop (req_body req) ''reason'')"
    and "req_params_id req \<noteq> req_user_id req"
    and "svc (req_params_id req) d = (Inl e, d1)"
  shows "reportUser q svc req d = (Next e, d1)"
  using assms by (simp add: reportUser_def Let_def)

lemma blockUser_existence_first:
  assumes "req_params_id req \<noteq> req_user_id req"
    and "svc (req_params_id req) d = (Inl e, d1)"
  shows "blockUser q svc req d = (Next e, d1)"
  using assms by (simp add: blockUser_def Let_def)

text \<open>What the statements of the three handlers meet in the schema.\<close>

lemma report_statement_refused:
  "pg_query new_id now
     (InsertInto ''reported_users'' [''user_id'', ''reported_by'', ''reason''] params False) d
   = (Inl (DatabaseError (UndefinedColumn ''user_id'')), d)"
  by (simp add: pg_query_def table_columns_def)

lemma block_statement_refused:
  "pg_query new_id now
     (InsertInto ''blocked_users'' [''user_id'', ''blocked_user_id''] params True) d
   = (Inl (DatabaseError (UndefinedColumn ''user_id'')), d)"
  by (simp add: pg_query_def table_columns_def)

lemma unblock_statement_refused:
  "pg_query new_id now
     (DeleteFrom ''blocked_users'' [(''user_id'', a), (''blocked_user_id'', b)]) d
   = (Inl (DatabaseError (UndefinedColumn ''user_id'')), d)"
  by (simp add: pg_query_def table_columns_def)

text \<open>
  With \<^verbatim>\<open>query\<close> unbound, and also with the helper over the schema, no request makes
  any of the three handlers answer 200 or change the stored state.
\<close>

lemma userService_getUserById_state: "snd (userService_getUserById target d) = d"
  by (simp add: userService_getUserById_def split: option.splits)

lemma reportUser_never_succeeds:
  assumes "q = controller_query \<or> q = Some (pg_query new_id now)"
  shows "\<exists>e. reportUser q userService_getUserById req d = (Next e, d)"
proof (cases "userService_getUserById (req_params_id req) d")
  case (Pair res d1)
  with userService_getUserById_state[of "req_params_id req" d] have "d1 = d" by simp
  with Pair assms show ?thesis
    by (cases res)
       (auto simp: reportUser_def Let_def call_query_def controller_query_def
          report_statement_refused)
qed

lemma blockUser_never_succeeds:
  assumes "q = controller_query \<or> q = Some (pg_query new_id now)"
  shows "\<exists>e. blockUser q userService_getUserById req d = (Next e, d)"
proof (cases "userService_getUserById (req_params_id req) d")
  case (Pair res d1)
  with userService_getUserById_state[of "req_params_id req" d] have "d1 = d" by simp
  with Pair assms show ?thesis
    by (cases res)
       (auto simp: blockUser_def Let_def call_query_def controller_query_def block_statement_refused)
qed

lemma unblockUser_never_succeeds:
  assumes "q = controller_query \<or> q = Some (pg_query new_id now)"
  shows "\<exists>e. unblockUser q req d = (Next e, d)"
  using assms
  by (auto simp: unblockUser_def Let_def call_query_def controller_query_def
        unblock_statement_refused)

text \<open>
  The statements with the schema's own column names do what the handlers are after: the
  report is appended, a second block of the same pair is a no-op, and the delete removes
  the pair.
\<close>

lemma schema_columns_report:
  "pg_query ''r3'' 5
     (InsertInto ''reported_users'' [''reported_id'', ''reporter_id'', ''reason'']
        [JStr ''u3'', JStr ''u2'', JStr ''spam''] False) sample_db
   = (Inr \<lparr>rowCount = 1\<rparr>,
      sample_db\<lparr>reported_users := reported_users sample_db @
        [\<lparr>ru_id = ''r3'', ru_reporter_id = ''u2'', ru_reported_id = ''u3'',
          ru_reason = Some ''spam'', ru_created_at = Some 5\<rparr>]\<rparr>)"
  by (simp add: pg_query_def table_columns_def insert_reported_user_def bound_def
        uuid_param_def text_param_def sample_db_user_ids)
     (simp add: sample_db_def)

lemma schema_columns_block_again:
  "pg_query ''b3'' 5
     (InsertInto ''blocked_users'' [''blocker_id'', ''blocked_id'']
        [JStr ''u1'', JStr ''u3''] True) sample_db
   = (Inr \<lparr>rowCount = 0\<rparr>, sample_db)"
  by (simp add: pg_query_def table_columns_def insert_blocked_user_def bound_def
        uuid_param_def sample_db_def)

lemma schema_columns_unblock:
  "pg_query ''b3'' 5
     (DeleteFrom ''blocked_users'' [(''blocker_id'', JStr ''u1''), (''blocked_id'', JStr ''u3'')])
     sample_db
   = (Inr \<lparr>rowCount = 1\<rparr>,
      sample_db\<lparr>blocked_users := [\<lparr>b_id = ''b2'', b_blocker_id = ''u3'', b_blocked_id = ''u2'',
                         b_created_at = Some 3\<rparr>]\<rparr>)"
  by (simp add: pg_query_def table_columns_def blocked_cond_def uuid_param_def sample_db_def)

lemma sample_getUserById:
  "userService_getUserById ''u1'' sample_db = (Inr (sample_user ''u1'' ''+100''), sample_db)"
  "userService_getUserById ''u3'' sample_db = (Inr (sample_user ''u3'' ''+300''), sample_db)"
  by (simp_all add: userService_getUserById_def sample_db_def sample_user_def)

text \<open>
  C4. A well-formed report: \<^verbatim>\<open>u2\<close> reports the existing user \<^verbatim>\<open>u3\<close> with the
  reason \<^verbatim>\<open>spam\<close>. The handler passes its checks and reaches
  \<^verbatim>\<open>query(...)\<close>, which is a \<^verbatim>\<open>ReferenceError\<close> in the module as written; bound to
  a helper over the schema, the statement names columns \<^verbatim>\<open>user_id\<close> and
  \<^verbatim>\<open>reported_by\<close> that \<^verbatim>\<open>reported_users\<close> does not have. Either way the request
  ends in \<^verbatim>\<open>next(error)\<close> and no row is appended.
\<close>

theorem reportUser_appends_nothing:
  "reportUser controller_query userService_getUserById
     (sample_request ''u3'' ''u2'' [(''reason'', JStr ''spam'')]) sample_db
     = (Next (ReferenceError ''query''), sample_db)
   \<and> reportUser (Some (pg_query ''r3'' 5)) userService_getUserById
       (sample_request ''u3'' ''u2'' [(''reason'', JStr ''spam'')]) sample_db
     = (Next (DatabaseError (UndefinedColumn ''user_id'')), sample_db)"
  by (simp add: reportUser_def Let_def sample_request_def get_prop_def call_query_def
        controller_query_def report_statement_refused sample_getUserById)

text \<open>
  C5. A well-formed block: \<^verbatim>\<open>u2\<close> blocks the existing user \<^verbatim>\<open>u1\<close>. The handler
  reaches \<^verbatim>\<open>query(...)\<close>: a \<^verbatim>\<open>ReferenceError\<close> in the module as written; over the
  schema, the statement names columns \<^verbatim>\<open>user_id\<close> and \<^verbatim>\<open>blocked_user_id\<close> that
  \<^verbatim>\<open>blocked_users\<close> does not have. No row is inserted.
\<close>

theorem blockUser_inserts_nothing:
  "blockUser controller_query userService_getUserById
     (sample_request ''u1'' ''u2'' []) sample_db
     = (Next (ReferenceError ''query''), sample_db)
   \<and> blockUser (Some (pg_query ''b3'' 5)) userService_getUserById
       (sample_request ''u1'' ''u2'' []) sample_db
     = (Next (DatabaseError (UndefinedColumn ''user_id'')), sample_db)"
  by (simp add: blockUser_def Let_def sample_request_def call_query_def
        controller_query_def block_statement_refused sample_getUserById)

text \<open>
  C6. Unblocking, both for a pair that is blocked (\<^verbatim>\<open>u1\<close> has blocked \<^verbatim>\<open>u3\<close>) and
  for one that is not (\<^verbatim>\<open>u1\<close> has not blocked \<^verbatim>\<open>u2\<close>): the handler ends in
  \<^verbatim>\<open>next(error)\<close>, never in a 200 response, and the block row stays.
\<close>

theorem unblockUser_never_answers:
  "unblockUser controller_query (sample_request ''u3'' ''u1'' []) sample_db
     = (Next (ReferenceError ''query''), sample_db)
   \<and> unblockUser controller_query (sample_request ''u2'' ''u1'' []) sample_db
     = (Next (ReferenceError ''query''), sample_db)
   \<and> unblockUser (Some (pg_query ''b3'' 5)) (sample_request ''u3'' ''u1'' []) sample_db
     = (Next (DatabaseError (UndefinedColumn ''user_id'')), sample_db)
   \<and> unblockUser (Some (pg_query ''b3'' 5)) (sample_request ''u2'' ''u1'' []) sample_db
     = (Next (DatabaseError (UndefinedColumn ''user_id'')), sample_db)"
  by (simp add: unblockUser_def Let_def call_query_def controller_query_def
        unblock_statement_refused)

subsection \<open>Updating a user\<close>

text \<open>The four profile fields \<^verbatim>\<open>updateUser\<close> reads from the body.\<close>

definition profile_fields :: "string set" where
  "profile_fields = {''name'', ''email'', ''photo'', ''status''}"

lemma userData_of_apply:
  "userData_of b k =
     (if k \<in> profile_fields \<and> get_prop b k \<noteq> JUndefined then Some (get_prop b k) else None)"
  by (simp add: userData_of_def Let_def profile_fields_def)

lemma dom_userData_of: "dom (userData_of b) \<subseteq> profile_fields"
  by (auto simp: userData_of_apply split: if_splits)

lemma get_prop_userData_of:
  "k \<in> profile_fields \<Longrightarrow> get_prop (userData_of b) k = get_prop b k"
  by (simp add: get_prop_def userData_of_apply)

lemma userData_of_idem: "userData_of (userData_of b) = userData_of b"
proof
  fix k
  show "userData_of (userData_of b) k = userData_of b k"
    by (cases "k \<in> profile_fields") (simp_all add: userData_of_apply get_prop_userData_of)
qed

text \<open>
  How a user's row after \<^verbatim>\<open>updateUser\<close> relates to the row before: the identity and
  the columns outside the profile are the same; a profile column the body does not supply
  is the same; on the target row a supplied profile column holds the supplied value; a row
  of another user is the same row.
\<close>

definition profile_column :: "string \<Rightarrow> users_row \<Rightarrow> string option" where
  "profile_column k r =
     (if k = ''name'' then u_name r else if k = ''email'' then u_email r
      else if k = ''photo'' then u_photo r else u_status r)"

definition updated_as_supplied :: "request \<Rightarrow> users_row \<Rightarrow> users_row \<Rightarrow> bool" where
  "updated_as_supplied req r r' \<longleftrightarrow>
     u_id r' = u_id r \<and> u_phone_number r' = u_phone_number r
     \<and> u_verified r' = u_verified r \<and> u_disabled r' = u_disabled r \<and> u_role r' = u_role r
     \<and> (u_id r \<noteq> req_params_id req \<longrightarrow> r' = r)
     \<and> list_all (\<lambda>k. profile_column k r' =
                     (if u_id r = req_params_id req \<and> get_prop (req_body req) k \<noteq> JUndefined
                      then text_param (get_prop (req_body req) k)
                      else profile_column k r))
         [''name'', ''email'', ''photo'', ''status'']"

lemma apply_userData_supplied:
  "u_id r = req_params_id req \<Longrightarrow>
     updated_as_supplied req r (apply_userData (userData_of (req_body req)) r)"
  by (simp add: updated_as_supplied_def apply_userData_def userData_of_apply
        profile_fields_def profile_column_def)

lemma updated_as_supplied_other:
  "u_id r \<noteq> req_params_id req \<Longrightarrow> updated_as_supplied req r r"
  by (simp add: updated_as_supplied_def)

lemma find_user_None: "find (\<lambda>r. u_id r = target) (users d) = None \<longleftrightarrow> target \<notin> user_ids d"
  by (auto simp: find_None_iff user_ids_def)

lemma find_user_Some:
  "target \<in> user_ids d \<Longrightarrow>
     \<exists>r. find (\<lambda>r. u_id r = target) (users d) = Some r \<and> r \<in> set (users d) \<and> u_id r = target"
proof -
  assume "target \<in> user_ids d"
  then have "find (\<lambda>r. u_id r = target) (users d) \<noteq> None"
    by (simp add: find_user_None)
  then obtain r where r: "find (\<lambda>r. u_id r = target) (users d) = Some r" by blast
  then have "r \<in> set (users d) \<and> u_id r = target"
    by (auto simp: find_Some_iff)
  with r show ?thesis by blast
qed

text \<open>
  C7. The handler hands the service only the supplied fields among name, email, photo and
  status, whatever else the body holds, and behaves the same on the body cut down to
  them. With the specified service: an absent target gives NotFound and an unchanged
  state; for an existing target the answer is 200, only the \<^verbatim>\<open>users\<close> table
  changes, and every row relates to its old self as above: phone\_number, verified,
  disabled and role never change, unsupplied profile fields never change, and the supplied
  ones are set on the target.
\<close>

theorem updateUser_only_supplied_profile_fields:
  "dom (userData_of (req_body req)) \<subseteq> profile_fields
   \<and> (\<forall>k \<in> profile_fields. userData_of (req_body req) k =
         (if get_prop (req_body req) k = JUndefined then None
          else Some (get_prop (req_body req) k)))
   \<and> updateUser svc req d = updateUser svc (req\<lparr>req_body := userData_of (req_body req)\<rparr>) d
   \<and> (req_params_id req \<notin> user_ids d \<longrightarrow>
        updateUser userService_updateUser req d = (Next (ServiceError NotFound), d))
   \<and> (req_params_id req \<in> user_ids d \<longrightarrow>
        (\<exists>r' d'. updateUser userService_updateUser req d
                    = (ok_envelope ''User updated successfully'' (Some (DataUser r')), d')
           \<and> u_id r' = req_params_id req \<and> r' \<in> set (users d')
           \<and> d' = d\<lparr>users := users d'\<rparr>
           \<and> list_all2 (updated_as_supplied req) (users d) (users d')))"
proof (intro conjI impI ballI)
  show "dom (userData_of (req_body req)) \<subseteq> profile_fields"
    by (rule dom_userData_of)
  show "userData_of (req_body req) k =
         (if get_prop (req_body req) k = JUndefined then None
          else Some (get_prop (req_body req) k))" if "k \<in> profile_fields" for k
    using that by (simp add: userData_of_apply)
  show "updateUser svc req d = updateUser svc (req\<lparr>req_body := userData_of (req_body req)\<rparr>) d"
    by (simp add: updateUser_def userData_of_idem)
  show "updateUser userService_updateUser req d = (Next (ServiceError NotFound), d)"
    if "req_params_id req \<notin> user_ids d"
    using that by (simp add: updateUser_def userService_updateUser_def find_user_None[symmetric])
next
  assume "req_params_id req \<in> user_ids d"
  from find_user_Some[OF this] obtain r where
    r: "find (\<lambda>r. u_id r = req_params_id req) (users d) = Some r"
       "r \<in> set (users d)" "u_id r = req_params_id req"
    by blast
  let ?f = "apply_userData (userData_of (req_body req))"
  let ?d' = "update_users_where (\<lambda>x. u_id x = req_params_id req) ?f d"
  have res: "updateUser userService_updateUser req d
      = (ok_envelope ''User updated successfully'' (Some (DataUser (?f r))), ?d')"
    using r(1) by (simp add: updateUser_def userService_updateUser_def)
  have id: "u_id (?f r) = req_params_id req"
    using r(3) by (simp add: apply_userData_def)
  have mem: "?f r \<in> set (users ?d')"
    using r(2,3) by (force simp: update_users_where_def)
  have frame: "?d' = d\<lparr>users := users ?d'\<rparr>"
    by (simp add: update_users_where_def)
  have rel: "list_all2 (updated_as_supplied req) (users d) (users ?d')"
    by (simp add: update_users_where_def list_all2_map2 list_all2_same
          apply_userData_supplied updated_as_supplied_other)
  show "\<exists>r' d'. updateUser userService_updateUser req d
                    = (ok_envelope ''User updated successfully'' (Some (DataUser r')), d')
           \<and> u_id r' = req_params_id req \<and> r' \<in> set (users d')
           \<and> d' = d\<lparr>users := users d'\<rparr>
           \<and> list_all2 (updated_as_supplied req) (users d) (users d')"
    using res id mem frame rel by blast
qed

text \<open>
  A profile update of \<^verbatim>\<open>u2\<close> whose body also carries \<^verbatim>\<open>role\<close>,
  \<^verbatim>\<open>verified\<close> and \<^verbatim>\<open>phone_number\<close>, and the same body sent for an id that names
  no user.
\<close>

definition sample_update_body :: "(string \<times> jsval) list" where
  "sample_update_body =
     [(''name'', JStr ''Bilal''), (''status'', JNull), (''role'', JStr ''admin''),
      (''verified'', JBool True), (''phone_number'', JStr ''+999'')]"

lemma sample_updateUser:
  "updateUser userService_updateUser (sample_request ''u2'' ''u2'' sample_update_body) sample_db
   = (ok_envelope ''User updated successfully''
        (Some (DataUser ((sample_user ''u2'' ''+200'')\<lparr>u_name := Some ''Bilal''\<rparr>))),
      sample_db\<lparr>users := [sample_user ''u1'' ''+100'',
                           (sample_user ''u2'' ''+200'')\<lparr>u_name := Some ''Bilal''\<rparr>,
                           sample_user ''u3'' ''+300'']\<rparr>)"
proof -
  have ud: "userData_of (req_body (sample_request ''u2'' ''u2'' sample_update_body))
      = [''name'' \<mapsto> JStr ''Bilal'', ''status'' \<mapsto> JNull]"
    by (rule ext)
       (simp add: userData_of_def Let_def get_prop_def sample_request_def sample_update_body_def)
  show ?thesis
    unfolding updateUser_def ud
    by (simp add: userService_updateUser_def update_users_where_def apply_userData_def
          text_param_def sample_request_def sample_db_def sample_user_def)
qed

theorem updateUser_only_supplied_profile_fields_witness:
  "req_params_id (sample_request ''u2'' ''u2'' sample_update_body) \<in> user_ids sample_db
   \<and> req_params_id (sample_request ''u9'' ''u2'' sample_update_body) \<notin> user_ids sample_db
   \<and> ''name'' \<in> profile_fields
   \<and> userData_of (req_body (sample_request ''u2'' ''u2'' sample_update_body)) ''name''
       = Some (JStr ''Bilal'')
   \<and> userData_of (req_body (sample_request ''u2'' ''u2'' sample_update_body)) ''role'' = None
   \<and> updateUser userService_updateUser (sample_request ''u9'' ''u2'' sample_update_body) sample_db
       = (Next (ServiceError NotFound), sample_db)
   \<and> list_all2 (updated_as_supplied (sample_request ''u2'' ''u2'' sample_update_body))
        (users sample_db)
        [sample_user ''u1'' ''+100'', (sample_user ''u2'' ''+200'')\<lparr>u_name := Some ''Bilal''\<rparr>,
         sample_user ''u3'' ''+300'']"
proof -
  let ?req = "sample_request ''u2'' ''u2'' sample_update_body"
  let ?ghost = "sample_request ''u9'' ''u2'' sample_update_body"
  have present: "req_params_id ?req \<in> user_ids sample_db"
    and absent: "req_params_id ?ghost \<notin> user_ids sample_db"
    by (simp_all add: sample_request_def sample_db_user_ids)
  have field: "''name'' \<in> profile_fields"
    by (simp add: profile_fields_def)
  note inst = updateUser_only_supplied_profile_fields[of ?req userService_updateUser sample_db]
  note ghost = updateUser_only_supplied_profile_fields[of ?ghost userService_updateUser sample_db]
  from inst field
  have "userData_of (req_body ?req) ''name'' =
      (if get_prop (req_body ?req) ''name'' = JUndefined then None
       else Some (get_prop (req_body ?req) ''name''))"
    by blast
  then have name: "userData_of (req_body ?req) ''name'' = Some (JStr ''Bilal'')"
    by (simp add: get_prop_def sample_request_def sample_update_body_def)
  from inst have "dom (userData_of (req_body ?req)) \<subseteq> profile_fields"
    by blast
  then have "''role'' \<notin> dom (userData_of (req_body ?req))"
    by (auto simp: profile_fields_def)
  then have role: "userData_of (req_body ?req) ''role'' = None"
    by (simp add: domIff)
  from ghost absent
  have nf: "updateUser userService_updateUser ?ghost sample_db
      = (Next (ServiceError NotFound), sample_db)"
    by blast
  from inst present obtain r' d' where
    "updateUser userService_updateUser ?req sample_db
       = (ok_envelope ''User updated successfully'' (Some (DataUser r')), d')"
    "list_all2 (updated_as_supplied ?req) (users sample_db) (users d')"
    by blast
  then have rel: "list_all2 (updated_as_supplied ?req) (users sample_db)
        [sample_user ''u1'' ''+100'', (sample_user ''u2'' ''+200'')\<lparr>u_name := Some ''Bilal''\<rparr>,
         sample_user ''u3'' ''+300'']"
    by (auto simp: sample_updateUser)
  from present absent field name role nf rel show ?thesis by simp
qed

subsection \<open>Existence before mutation\<close>

lemma userService_getUserById_absent:
  "target \<notin> user_ids d \<Longrightarrow>
     userService_getUserById target d = (Inl (ServiceError NotFound), d)"
  by (simp add: userService_getUserById_def find_user_None[symmetric])

lemma userService_updateUser_absent:
  "target \<notin> user_ids d \<Longrightarrow>
     userService_updateUser target userData d = (Inl (ServiceError NotFound), d)"
  by (simp add: userService_updateUser_def find_user_None[symmetric])

text \<open>A statement on \<^verbatim>\<open>users\<close> that matches no row leaves the state as it was.\<close>

lemma no_user_rows:
  "target \<notin> user_ids d \<Longrightarrow> filter (\<lambda>r. u_id r = target) (users d) = []"
  by (auto simp: filter_empty_conv user_ids_def)

lemma delete_user_absent:
  assumes "target \<notin> user_ids d"
  shows "delete_user target d = d"
proof -
  note none = no_user_rows[OF assms]
  from assms have rest: "filter (\<lambda>r. u_id r \<noteq> target) (users d) = users d"
    by (auto simp: filter_id_conv user_ids_def)
  show ?thesis
    by (simp add: delete_user_def delete_users_where_def delete_groups_where_def
          delete_messages_where_def Let_def fk_ok_compl none rest)
qed

lemma update_users_where_absent:
  assumes "target \<notin> user_ids d"
  shows "update_users_where (\<lambda>x. u_id x = target) f d = d"
proof -
  from assms have "map (\<lambda>r. if u_id r = target then f r else r) (users d) = users d"
    by (intro map_idI) (auto simp: user_ids_def)
  then show ?thesis by (simp add: update_users_where_def)
qed

text \<open>
  C3, as the code has it. \<^verbatim>\<open>reportUser\<close> and \<^verbatim>\<open>blockUser\<close> await
  \<^verbatim>\<open>getUserById\<close> before their statement: once the request has passed the handler's
  own validation (a reason, a target other than the caller), an error of the existence
  check is what the handler forwards, with the state the check left, for every service
  and every binding of \<^verbatim>\<open>query\<close>; with the specified \<^verbatim>\<open>getUserById\<close> a path id
  that names no user ends in NotFound with the stored state unchanged. \<^verbatim>\<open>updateUser\<close>
  makes no check of its own and ends the same way with the specified
  \<^verbatim>\<open>updateUser\<close> service. \<^verbatim>\<open>deleteUser\<close> and the two status updates make no
  check either: for every service, they leave the state the service call leaves and
  forward the error it throws, and nothing else decides how they end. \<^verbatim>\<open>unblockUser\<close>
  checks nothing.
\<close>

theorem existence_check_precedes_mutation:
  "(truthy (get_prop (req_body req) ''reason'') \<and> req_params_id req \<noteq> req_user_id req
      \<and> svc (req_params_id req) d = (Inl e, d1)
      \<longrightarrow> reportUser q svc req d = (Next e, d1))
   \<and> (req_params_id req \<noteq> req_user_id req \<and> svc (req_params_id req) d = (Inl e, d1)
      \<longrightarrow> blockUser q svc req d = (Next e, d1))
   \<and> (req_params_id req \<notin> user_ids d \<longrightarrow>
        (truthy (get_prop (req_body req) ''reason'') \<and> req_params_id req \<noteq> req_user_id req
           \<longrightarrow> reportUser q userService_getUserById req d = (Next (ServiceError NotFound), d))
        \<and> (req_params_id req \<noteq> req_user_id req
           \<longrightarrow> blockUser q userService_getUserById req d = (Next (ServiceError NotFound), d))
        \<and> updateUser userService_updateUser req d = (Next (ServiceError NotFound), d))
   \<and> snd (updateUser update_svc req d)
       = snd (update_svc (req_params_id req) (userData_of (req_body req)) d)
   \<and> (update_svc (req_params_id req) (userData_of (req_body req)) d = (Inl e, d1)
      \<longrightarrow> updateUser update_svc req d = (Next e, d1))
   \<and> snd (deleteUser delete_svc req d) = snd (delete_svc (req_params_id req) d)
   \<and> (delete_svc (req_params_id req) d = (Inl e, d1)
      \<longrightarrow> deleteUser delete_svc req d = (Next e, d1))
   \<and> (get_prop (req_body req) ''verified'' \<noteq> JUndefined \<longrightarrow>
        snd (updateVerificationStatus verify_svc req d)
          = snd (verify_svc (req_params_id req) (get_prop (req_body req) ''verified'') d)
        \<and> (verify_svc (req_params_id req) (get_prop (req_body req) ''verified'') d = (Inl e, d1)
           \<longrightarrow> updateVerificationStatus verify_svc req d = (Next e, d1)))
   \<and> (get_prop (req_body req) ''disabled'' \<noteq> JUndefined \<longrightarrow>
        snd (updateDisabledStatus disable_svc req d)
          = snd (disable_svc (req_params_id req) (get_prop (req_body req) ''disabled'') d)
        \<and> (disable_svc (req_params_id req) (get_prop (req_body req) ''disabled'') d = (Inl e, d1)
           \<longrightarrow> updateDisabledStatus disable_svc req d = (Next e, d1)))
   \<and> error_kind_of (ServiceError NotFound) = Some NotFound"
proof (intro conjI impI)
  show "reportUser q svc req d = (Next e, d1)"
    if "truthy (get_prop (req_body req) ''reason'') \<and> req_params_id req \<noteq> req_user_id req
      \<and> svc (req_params_id req) d = (Inl e, d1)"
    using that by (simp add: reportUser_def Let_def)
  show "blockUser q svc req d = (Next e, d1)"
    if "req_params_id req \<noteq> req_user_id req \<and> svc (req_params_id req) d = (Inl e, d1)"
    using that by (simp add: blockUser_def Let_def)
  show "error_kind_of (ServiceError NotFound) = Some NotFound"
    by (simp add: error_kind_of_def)
  show "snd (updateUser update_svc req d)
       = snd (update_svc (req_params_id req) (userData_of (req_body req)) d)"
    by (simp add: updateUser_def split: prod.splits sum.splits)
  show "updateUser update_svc req d = (Next e, d1)"
    if "update_svc (req_params_id req) (userData_of (req_body req)) d = (Inl e, d1)"
    using that by (simp add: updateUser_def)
  show "snd (deleteUser delete_svc req d) = snd (delete_svc (req_params_id req) d)"
    by (simp add: deleteUser_def split: prod.splits sum.splits)
  show "deleteUser delete_svc req d = (Next e, d1)"
    if "delete_svc (req_params_id req) d = (Inl e, d1)"
    using that by (simp add: deleteUser_def)
  show "snd (updateVerificationStatus verify_svc req d)
          = snd (verify_svc (req_params_id req) (get_prop (req_body req) ''verified'') d)"
    if "get_prop (req_body req) ''verified'' \<noteq> JUndefined"
    using that by (simp add: updateVerificationStatus_def Let_def split: prod.splits sum.splits)
  show "updateVerificationStatus verify_svc req d = (Next e, d1)"
    if "get_prop (req_body req) ''verified'' \<noteq> JUndefined"
      and "verify_svc (req_params_id req) (get_prop (req_body req) ''verified'') d = (Inl e, d1)"
    using that by (simp add: updateVerificationStatus_def Let_def)
  show "snd (updateDisabledStatus disable_svc req d)
          = snd (disable_svc (req_params_id req) (get_prop (req_body req) ''disabled'') d)"
    if "get_prop (req_body req) ''disabled'' \<noteq> JUndefined"
    using that by (simp add: updateDisabledStatus_def Let_def split: prod.splits sum.splits)
  show "updateDisabledStatus disable_svc req d = (Next e, d1)"
    if "get_prop (req_body req) ''disabled'' \<noteq> JUndefined"
      and "disable_svc (req_params_id req) (get_prop (req_body req) ''disabled'') d = (Inl e, d1)"
    using that by (simp add: updateDisabledStatus_def Let_def)
next
  assume absent: "req_params_id req \<notin> user_ids d"
  note gone = userService_getUserById_absent[OF absent]
  show "reportUser q userService_getUserById req d = (Next (ServiceError NotFound), d)"
    if "truthy (get_prop (req_body req) ''reason'') \<and> req_params_id req \<noteq> req_user_id req"
    using that gone by (simp add: reportUser_def Let_def)
  show "blockUser q userService_getUserById req d = (Next (ServiceError NotFound), d)"
    if "req_params_id req \<noteq> req_user_id req"
    using that gone by (simp add: blockUser_def Let_def)
  show "updateUser userService_updateUser req d = (Next (ServiceError NotFound), d)"
    by (simp add: updateUser_def userService_updateUser_absent[OF absent])
qed

text \<open>A request about \<^verbatim>\<open>u9\<close>, who does not exist, with every field a handler asks for.\<close>

definition ghost_request :: request where
  "ghost_request =
     sample_request ''u9'' ''u1''
       [(''reason'', JStr ''spam''), (''verified'', JBool True), (''disabled'', JBool False)]"

text \<open>A service call that throws a timeout after the state has changed.\<close>

definition failing_delete :: "string \<Rightarrow> db \<Rightarrow> nat awaited" where
  "failing_delete target d = (Inl (ServiceError Timeout), delete_user target d)"

theorem existence_check_precedes_mutation_witness:
  "req_params_id ghost_request \<notin> user_ids sample_db
   \<and> truthy (get_prop (req_body ghost_request) ''reason'')
   \<and> req_params_id ghost_request \<noteq> req_user_id ghost_request
   \<and> get_prop (req_body ghost_request) ''verified'' \<noteq> JUndefined
   \<and> get_prop (req_body ghost_request) ''disabled'' \<noteq> JUndefined
   \<and> userService_getUserById (req_params_id ghost_request) sample_db
       = (Inl (ServiceError NotFound), sample_db)
   \<and> reportUser (Some (pg_query ''r3'' 5)) userService_getUserById ghost_request sample_db
       = (Next (ServiceError NotFound), sample_db)
   \<and> blockUser (Some (pg_query ''b3'' 5)) userService_getUserById ghost_request sample_db
       = (Next (ServiceError NotFound), sample_db)
   \<and> updateUser userService_updateUser ghost_request sample_db
       = (Next (ServiceError NotFound), sample_db)
   \<and> failing_delete ''u1'' sample_db = (Inl (ServiceError Timeout), delete_user ''u1'' sample_db)
   \<and> deleteUser failing_delete (sample_request ''u1'' ''u2'' []) sample_db
       = (Next (ServiceError Timeout), delete_user ''u1'' sample_db)
   \<and> snd (updateVerificationStatus userService_updateVerificationStatus ghost_request sample_db)
       = sample_db
   \<and> snd (updateDisabledStatus userService_updateDisabledStatus ghost_request sample_db)
       = sample_db"
proof -
  have absent: "req_params_id ghost_request \<notin> user_ids sample_db"
    by (simp add: ghost_request_def sample_request_def sample_db_user_ids)
  have valid: "truthy (get_prop (req_body ghost_request) ''reason'')"
    "req_params_id ghost_request \<noteq> req_user_id ghost_request"
    "get_prop (req_body ghost_request) ''verified'' \<noteq> JUndefined"
    "get_prop (req_body ghost_request) ''disabled'' \<noteq> JUndefined"
    by (simp_all add: ghost_request_def sample_request_def get_prop_def)
  have check: "userService_getUserById (req_params_id ghost_request) sample_db
       = (Inl (ServiceError NotFound), sample_db)"
    using absent by (rule userService_getUserById_absent)
  note report = existence_check_precedes_mutation
    [where req = ghost_request and svc = userService_getUserById and d = sample_db
       and e = "ServiceError NotFound" and ?d1.0 = sample_db
       and q = "Some (pg_query ''r3'' 5)" and update_svc = userService_updateUser
       and delete_svc = userService_deleteUser
       and verify_svc = userService_updateVerificationStatus
       and disable_svc = userService_updateDisabledStatus]
  note block = existence_check_precedes_mutation
    [where req = ghost_request and svc = userService_getUserById and d = sample_db
       and e = "ServiceError NotFound" and ?d1.0 = sample_db
       and q = "Some (pg_query ''b3'' 5)" and update_svc = userService_updateUser
       and delete_svc = userService_deleteUser
       and verify_svc = userService_updateVerificationStatus
       and disable_svc = userService_updateDisabledStatus]
  note failing = existence_check_precedes_mutation
    [where req = "sample_request ''u1'' ''u2'' []" and svc = userService_getUserById
       and d = sample_db and e = "ServiceError Timeout"
       and ?d1.0 = "delete_user ''u1'' sample_db"
       and q = controller_query and update_svc = userService_updateUser
       and delete_svc = failing_delete
       and verify_svc = userService_updateVerificationStatus
       and disable_svc = userService_updateDisabledStatus]
  from report absent valid check
  have reported: "reportUser (Some (pg_query ''r3'' 5)) userService_getUserById ghost_request
      sample_db = (Next (ServiceError NotFound), sample_db)"
    by blast
  from block absent valid check
  have blocked: "blockUser (Some (pg_query ''b3'' 5)) userService_getUserById ghost_request
      sample_db = (Next (ServiceError NotFound), sample_db)"
    by blast
  from report absent
  have updated: "updateUser userService_updateUser ghost_request sample_db
       = (Next (ServiceError NotFound), sample_db)"
    by blast
  have thrown: "failing_delete ''u1'' sample_db
      = (Inl (ServiceError Timeout), delete_user ''u1'' sample_db)"
    by (simp add: failing_delete_def)
  have "failing_delete (req_params_id (sample_request ''u1'' ''u2'' [])) sample_db
      = (Inl (ServiceError Timeout), delete_user ''u1'' sample_db)"
    by (simp add: failing_delete_def sample_request_def)
  with failing
  have deleted: "deleteUser failing_delete (sample_request ''u1'' ''u2'' []) sample_db
       = (Next (ServiceError Timeout), delete_user ''u1'' sample_db)"
    by blast
  from report valid
  have "snd (updateVerificationStatus userService_updateVerificationStatus ghost_request
               sample_db)
      = snd (userService_updateVerificationStatus (req_params_id ghost_request)
               (get_prop (req_body ghost_request) ''verified'') sample_db)"
    by blast
  with absent
  have verified: "snd (updateVerificationStatus userService_updateVerificationStatus
      ghost_request sample_db) = sample_db"
    by (simp add: userService_updateVerificationStatus_def update_users_where_absent)
  from report valid
  have "snd (updateDisabledStatus userService_updateDisabledStatus ghost_request sample_db)
      = snd (userService_updateDisabledStatus (req_params_id ghost_request)
               (get_prop (req_body ghost_request) ''disabled'') sample_db)"
    by blast
  with absent
  have disabled: "snd (updateDisabledStatus userService_updateDisabledStatus ghost_request
      sample_db) = sample_db"
    by (simp add: userService_updateDisabledStatus_def update_users_where_absent)
  from absent valid check reported blocked updated thrown deleted verified disabled
  show ?thesis by simp
qed

text \<open>A \<^verbatim>\<open>query\<close> that runs the delete and finds no row.\<close>

definition finds_no_row :: query_fn where
  "finds_no_row stmt d = (Inr \<lparr>rowCount = 0\<rparr>, d)"

text \<open>
  C3 as stated fails, at the absent \<^verbatim>\<open>u9\<close>. \<^verbatim>\<open>unblockUser\<close> never ends in
  NotFound: it ends in the \<^verbatim>\<open>ReferenceError\<close> of the module as written, in the refused
  statement over the schema, and in a 200 with \<^verbatim>\<open>User was not blocked\<close> when the delete
  runs and finds no row. \<^verbatim>\<open>deleteUser\<close> and the two status updates, over services that
  issue their one statement, answer 200 and leave the state as it was. And a handler's own
  validation comes before any existence check: \<^verbatim>\<open>reportUser\<close> without a reason and the
  verification update without its flag end in a 400.
\<close>

theorem unblockUser_checks_no_existence:
  "req_params_id (sample_request ''u9'' ''u1'' []) \<notin> user_ids sample_db
   \<and> unblockUser controller_query (sample_request ''u9'' ''u1'' []) sample_db
       = (Next (ReferenceError ''query''), sample_db)
   \<and> unblockUser (Some (pg_query ''b3'' 5)) (sample_request ''u9'' ''u1'' []) sample_db
       = (Next (DatabaseError (UndefinedColumn ''user_id'')), sample_db)
   \<and> unblockUser (Some finds_no_row) (sample_request ''u9'' ''u1'' []) sample_db
       = (ok_envelope ''User was not blocked'' None, sample_db)
   \<and> reportUser controller_query userService_getUserById (sample_request ''u9'' ''u1'' [])
        sample_db
       = (Next (ApiError 400 ''Reason is required''), sample_db)
   \<and> updateVerificationStatus userService_updateVerificationStatus
        (sample_request ''u9'' ''u1'' []) sample_db
       = (Next (ApiError 400 ''Verified status is required''), sample_db)
   \<and> deleteUser userService_deleteUser (sample_request ''u9'' ''u1'' []) sample_db
       = (ok_envelope ''User deleted successfully'' None, sample_db)
   \<and> updateVerificationStatus userService_updateVerificationStatus
        (sample_request ''u9'' ''u1'' [(''verified'', JBool True)]) sample_db
       = (ok_envelope ''User verified successfully'' (Some (DataUser None)), sample_db)
   \<and> updateDisabledStatus userService_updateDisabledStatus
        (sample_request ''u9'' ''u1'' [(''disabled'', JBool True)]) sample_db
       = (ok_envelope ''User disabled successfully'' (Some (DataUser None)), sample_db)"
proof -
  have absent: "''u9'' \<notin> user_ids sample_db"
    by (simp add: sample_db_user_ids)
  then have none: "find (\<lambda>r. u_id r = ''u9'') (users sample_db) = None"
    by (simp add: find_user_None)
  note count = no_user_rows[OF absent]
  show ?thesis
    using absent
    by (simp add: unblockUser_def reportUser_def updateVerificationStatus_def
          updateDisabledStatus_def deleteUser_def Let_def call_query_def controller_query_def
          unblock_statement_refused finds_no_row_def sample_request_def get_prop_def
          userService_deleteUser_def userService_updateVerificationStatus_def
          userService_updateDisabledStatus_def delete_user_absent update_users_where_absent
          none count)
qed

section \<open>Properties of the messaging model\<close>

lemma sendMessage_invalid_target:
  "(to_user = None) = (to_group = None) \<Longrightarrow>
     sendMessage mid um_ids now senderId to_user to_group content metadata msg_type d
       = (Inl InvalidArgument, d)"
  by (simp add: sendMessage_def)

lemma insert_user_message_Inr:
  "insert_user_message r d = Inr d' \<Longrightarrow> d' = d\<lparr>user_messages := user_messages d @ [r]\<rparr>"
  by (auto simp: insert_user_message_def split: if_splits)

lemma fan_out_Inr:
  "fan_out mid um_ids now i us d = Inr d' \<Longrightarrow>
     \<exists>new. d' = d\<lparr>user_messages := user_messages d @ new\<rparr>
        \<and> map um_user_id new = us \<and> (\<forall>r\<in>set new. um_message_id r = mid)"
proof (induction us arbitrary: i d)
  case Nil
  then show ?case by simp
next
  case (Cons u us)
  let ?r = "\<lparr>um_id = um_ids i, um_user_id = u, um_message_id = mid, um_is_read = Some False,
               um_created_at = Some now\<rparr>"
  from Cons.prems obtain d1 where d1: "insert_user_message ?r d = Inr d1"
    and rest: "fan_out mid um_ids now (Suc i) us d1 = Inr d'"
    by (auto split: sum.splits)
  from d1 have d1_eq: "d1 = d\<lparr>user_messages := user_messages d @ [?r]\<rparr>"
    by (rule insert_user_message_Inr)
  from Cons.IH[OF rest] obtain new where
    new: "d' = d1\<lparr>user_messages := user_messages d1 @ new\<rparr>"
      "map um_user_id new = us" "\<forall>r\<in>set new. um_message_id r = mid"
    by blast
  show ?case
    by (rule exI[of _ "?r # new"]) (use new d1_eq in simp)
qed

lemma length_filter_all_but_one:
  "distinct (map f xs) \<Longrightarrow> a \<in> f ` set xs \<Longrightarrow>
     length (filter (\<lambda>r. f r \<noteq> a) xs) = length xs - 1"
proof (induction xs)
  case Nil
  then show ?case by simp
next
  case (Cons x xs)
  show ?case
  proof (cases "f x = a")
    case True
    with Cons.prems have "a \<notin> f ` set xs" by auto
    then have "filter (\<lambda>r. f r \<noteq> a) xs = xs"
      by (auto simp: filter_id_conv)
    with True show ?thesis by simp
  next
    case False
    with Cons.prems have rest: "a \<in> f ` set xs" "distinct (map f xs)" by auto
    with Cons.IH have "length (filter (\<lambda>r. f r \<noteq> a) xs) = length xs - 1" by simp
    moreover from rest(1) have "length xs > 0" by auto
    ultimately show ?thesis using False by simp
  qed
qed

lemma group_member_rows_distinct:
  assumes "group_members_unique d"
  shows "distinct (map gm_user_id (group_member_rows g d))"
proof -
  from assms
  have "distinct (map (\<lambda>r. (gm_group_id r, gm_user_id r)) (group_member_rows g d))"
    unfolding group_members_unique_def group_member_rows_def by (rule distinct_map_filter)
  moreover have "map (\<lambda>r. (gm_group_id r, gm_user_id r)) (group_member_rows g d)
      = map (Pair g) (map gm_user_id (group_member_rows g d))"
    by (simp add: group_member_rows_def)
  ultimately show ?thesis
    by (simp only: distinct_map)
qed

lemma recipients_count:
  assumes "group_members_unique d" and "(to_user = None) \<noteq> (to_group = None)"
    and "\<And>g. to_group = Some g \<Longrightarrow> is_member g senderId d"
  shows "length (recipients_of senderId to_user to_group d) = intended_recipient_count to_group d"
proof (cases to_group)
  case None
  with assms(2) show ?thesis
    by (auto simp: recipients_of_def intended_recipient_count_def)
next
  case (Some g)
  with assms(2) have tu: "to_user = None" by auto
  from assms(3)[OF Some] have "senderId \<in> gm_user_id ` set (group_member_rows g d)"
    by (auto simp: is_member_def list_ex_iff)
  from length_filter_all_but_one[OF group_member_rows_distinct[OF assms(1)] this]
  show ?thesis using Some tu
    by (simp add: recipients_of_def intended_recipient_count_def)
qed

text \<open>
  C2. In a state that satisfies \<^verbatim>\<open>UNIQUE (group_id, user_id)\<close>, a successful
  \<^verbatim>\<open>sendMessage\<close> adds exactly the one message row and, after the existing
  \<^verbatim>\<open>user_messages\<close> rows, one row per intended recipient, all for the new message:
  the member count of the group at send time minus one for a group message, one for a
  direct message; nothing else changes. A failed \<^verbatim>\<open>sendMessage\<close> leaves the state as
  it was, so a message row never stands with part of its fan-out.
\<close>

theorem sendMessage_fan_out:
  assumes "group_members_unique d"
  shows "(sendMessage mid um_ids now senderId to_user to_group content metadata msg_type d
            = (Inr (), d')
     \<longrightarrow> (\<exists>new. d' = d\<lparr>messages := messages d @
                     [\<lparr>m_id = mid, m_from_id = senderId, m_to_id = to_user, m_group_id = to_group,
                       m_content = content, m_metadata = metadata, m_type = msg_type,
                       m_created_at = Some now\<rparr>],
                   user_messages := user_messages d @ new\<rparr>
            \<and> (\<forall>r\<in>set new. um_message_id r = mid)
            \<and> map um_user_id new = recipients_of senderId to_user to_group d
            \<and> length new = intended_recipient_count to_group d))
   \<and> (sendMessage mid um_ids now senderId to_user to_group content metadata msg_type d
            = (Inl e, d')
     \<longrightarrow> d' = d)"
proof (intro conjI impI)
  assume ok: "sendMessage mid um_ids now senderId to_user to_group content metadata msg_type d
      = (Inr (), d')"
  let ?row = "\<lparr>m_id = mid, m_from_id = senderId, m_to_id = to_user, m_group_id = to_group,
                       m_content = content, m_metadata = metadata, m_type = msg_type,
                       m_created_at = Some now\<rparr>"
  from ok have one: "(to_user = None) \<noteq> (to_group = None)"
    by (auto simp: sendMessage_def split: if_splits)
  from ok have mem: "\<And>g. to_group = Some g \<Longrightarrow> is_member g senderId d"
    by (auto simp: sendMessage_def split: if_splits)
  from ok obtain d1 where d1: "insert_message ?row d = Inr d1"
    and fo: "fan_out mid um_ids now 0 (recipients_of senderId to_user to_group d) d1 = Inr d'"
    by (auto simp: sendMessage_def split: if_splits sum.splits)
  from fan_out_Inr[OF fo] obtain new where new:
    "d' = d1\<lparr>user_messages := user_messages d1 @ new\<rparr>"
    "map um_user_id new = recipients_of senderId to_user to_group d"
    "\<forall>r\<in>set new. um_message_id r = mid" by blast
  from new(2) have "length new = length (recipients_of senderId to_user to_group d)"
    by (metis length_map)
  with recipients_count[OF assms one mem]
  have len: "length new = intended_recipient_count to_group d" by simp
  show "\<exists>new. d' = d\<lparr>messages := messages d @ [?row], user_messages := user_messages d @ new\<rparr>
            \<and> (\<forall>r\<in>set new. um_message_id r = mid)
            \<and> map um_user_id new = recipients_of senderId to_user to_group d
            \<and> length new = intended_recipient_count to_group d"
    by (rule exI[of _ new]) (use new len insert_message_Inr[OF d1] in simp)
next
  assume "sendMessage mid um_ids now senderId to_user to_group content metadata msg_type d
      = (Inl e, d')"
  then show "d' = d"
    by (auto simp: sendMessage_def split: if_splits sum.splits)
qed

text \<open>Fresh identifiers for the sample sends: \<^verbatim>\<open>x\<close>, \<^verbatim>\<open>xx\<close>, and so on.\<close>

definition sample_ids :: "nat \<Rightarrow> uuid" where
  "sample_ids i = replicate (Suc i) CHR ''x''"

lemma sample_unique: "group_members_unique sample_db"
  by (simp add: group_members_unique_def sample_db_def sample_member_def)

lemma sample_group_send:
  "sendMessage ''m9'' sample_ids 7 ''u2'' None (Some ''g2'') (Some ''salam'') None 0 sample_db
   = (Inr (),
      sample_db\<lparr>messages := messages sample_db @
                  [\<lparr>m_id = ''m9'', m_from_id = ''u2'', m_to_id = None, m_group_id = Some ''g2'',
                    m_content = Some ''salam'', m_metadata = None, m_type = 0,
                    m_created_at = Some 7\<rparr>],
                user_messages := user_messages sample_db @
                  [\<lparr>um_id = ''x'', um_user_id = ''u3'', um_message_id = ''m9'',
                    um_is_read = Some False, um_created_at = Some 7\<rparr>,
                   \<lparr>um_id = ''xx'', um_user_id = ''u1'', um_message_id = ''m9'',
                    um_is_read = Some False, um_created_at = Some 7\<rparr>]\<rparr>)"
  by (simp add: sendMessage_def is_member_def is_group_admin_def only_admins_can_post_def
        group_member_rows_def recipients_of_def insert_message_def messages_check_def
        fk_ok_def user_ids_def group_ids_def message_ids_def insert_user_message_def
        sample_ids_def sample_db_def sample_user_def sample_member_def sample_message_def
        sample_user_message_def)

lemma sample_direct_send:
  "sendMessage ''m9'' sample_ids 7 ''u1'' (Some ''u2'') None (Some ''salam'') None 0 sample_db
   = (Inr (),
      sample_db\<lparr>messages := messages sample_db @
                  [\<lparr>m_id = ''m9'', m_from_id = ''u1'', m_to_id = Some ''u2'', m_group_id = None,
                    m_content = Some ''salam'', m_metadata = None, m_type = 0,
                    m_created_at = Some 7\<rparr>],
                user_messages := user_messages sample_db @
                  [\<lparr>um_id = ''x'', um_user_id = ''u2'', um_message_id = ''m9'',
                    um_is_read = Some False, um_created_at = Some 7\<rparr>]\<rparr>)"
  by (simp add: sendMessage_def blocked_between_def recipients_of_def insert_message_def
        messages_check_def fk_ok_def user_ids_def group_ids_def message_ids_def
        insert_user_message_def sample_ids_def sample_db_def sample_user_def
        sample_message_def sample_user_message_def)

lemma sample_blocked_send:
  "sendMessage ''m9'' sample_ids 7 ''u3'' (Some ''u1'') None (Some ''salam'') None 0 sample_db
   = (Inl Forbidden, sample_db)"
  by (simp add: sendMessage_def blocked_between_def sample_db_def)

theorem sendMessage_fan_out_witness:
  "group_members_unique sample_db
   \<and> fst (sendMessage ''m9'' sample_ids 7 ''u2'' None (Some ''g2'') (Some ''salam'') None 0
            sample_db) = Inr ()
   \<and> length (group_member_rows ''g2'' sample_db) = 3
   \<and> length (user_messages (snd (sendMessage ''m9'' sample_ids 7 ''u2'' None (Some ''g2'')
               (Some ''salam'') None 0 sample_db)))
       = length (user_messages sample_db) + 2
   \<and> fst (sendMessage ''m9'' sample_ids 7 ''u1'' (Some ''u2'') None (Some ''salam'') None 0
            sample_db) = Inr ()
   \<and> length (user_messages (snd (sendMessage ''m9'' sample_ids 7 ''u1'' (Some ''u2'') None
               (Some ''salam'') None 0 sample_db)))
       = length (user_messages sample_db) + 1
   \<and> snd (sendMessage ''m9'' sample_ids 7 ''u3'' (Some ''u1'') None (Some ''salam'') None 0
            sample_db) = sample_db"
proof -
  have members: "length (group_member_rows ''g2'' sample_db) = 3"
    by (simp add: group_member_rows_def sample_db_def sample_member_def)
  then have group_count: "intended_recipient_count (Some ''g2'') sample_db = 2"
    by (simp add: intended_recipient_count_def)
  have direct_count: "intended_recipient_count None sample_db = 1"
    by (simp add: intended_recipient_count_def)
  from sendMessage_fan_out[OF sample_unique, of "''m9''" sample_ids 7 "''u2''" None "Some ''g2''"
      "Some ''salam''" None 0] sample_group_send
  obtain new where
    "snd (sendMessage ''m9'' sample_ids 7 ''u2'' None (Some ''g2'') (Some ''salam'') None 0
       sample_db)
     = sample_db\<lparr>messages := messages sample_db @
          [\<lparr>m_id = ''m9'', m_from_id = ''u2'', m_to_id = None, m_group_id = Some ''g2'',
            m_content = Some ''salam'', m_metadata = None, m_type = 0,
            m_created_at = Some 7\<rparr>],
        user_messages := user_messages sample_db @ new\<rparr>"
    "length new = intended_recipient_count (Some ''g2'') sample_db"
    by (metis snd_conv)
  with group_count
  have group_len: "length (user_messages (snd (sendMessage ''m9'' sample_ids 7 ''u2'' None
               (Some ''g2'') (Some ''salam'') None 0 sample_db)))
       = length (user_messages sample_db) + 2"
    by simp
  from sendMessage_fan_out[OF sample_unique, of "''m9''" sample_ids 7 "''u1''" "Some ''u2''" None
      "Some ''salam''" None 0] sample_direct_send
  obtain new' where
    "snd (sendMessage ''m9'' sample_ids 7 ''u1'' (Some ''u2'') None (Some ''salam'') None 0
       sample_db)
     = sample_db\<lparr>messages := messages sample_db @
          [\<lparr>m_id = ''m9'', m_from_id = ''u1'', m_to_id = Some ''u2'', m_group_id = None,
            m_content = Some ''salam'', m_metadata = None, m_type = 0,
            m_created_at = Some 7\<rparr>],
        user_messages := user_messages sample_db @ new'\<rparr>"
    "length new' = intended_recipient_count None sample_db"
    by (metis snd_conv)
  with direct_count
  have direct_len: "length (user_messages (snd (sendMessage ''m9'' sample_ids 7 ''u1''
               (Some ''u2'') None (Some ''salam'') None 0 sample_db)))
       = length (user_messages sample_db) + 1"
    by simp
  from sendMessage_fan_out[OF sample_unique, of "''m9''" sample_ids 7 "''u3''" "Some ''u1''" None
      "Some ''salam''" None 0 _ Forbidden] sample_blocked_send
  have blocked: "snd (sendMessage ''m9'' sample_ids 7 ''u3'' (Some ''u1'') None (Some ''salam'')
      None 0 sample_db) = sample_db"
    by (metis snd_conv)
  from sample_unique members group_len direct_len blocked show ?thesis
    by (simp add: sample_group_send sample_direct_send)
qed

end
